theory Spec2Isabelle
  imports Main "HOL-Library.Sublist"
begin

section \<open>Strings\<close>

text \<open>
  A Python \<open>str\<close> is modelled as a \<open>string\<close>, one \<open>char\<close> per code point, for
  the code points below 256 (Latin-1); \<open>length\<close> is Python's \<open>len\<close>. The three string
  methods the two scripts use are written out on that range: \<open>str.isspace\<close> holds for
  the code points 9 to 13, 28 to 32, 133 and 160; \<open>str.lower\<close> adds 32 to the code points
  65 to 90 and 192 to 222 other than 215, and keeps any other one.
\<close>

definition isspace :: "char \<Rightarrow> bool" where
  "isspace c =
     (let n = (of_char c :: nat)
      in (9 \<le> n \<and> n \<le> 13) \<or> (28 \<le> n \<and> n \<le> 32) \<or> n = 133 \<or> n = 160)"

definition strip :: "string \<Rightarrow> string" where
  "strip s = rev (dropWhile isspace (rev (dropWhile isspace s)))"

definition lower_char :: "char \<Rightarrow> char" where
  "lower_char c =
     (let n = (of_char c :: nat)
      in if (65 \<le> n \<and> n \<le> 90) \<or> (192 \<le> n \<and> n \<le> 222 \<and> n \<noteq> 215)
         then char_of (n + 32) else c)"

definition lower :: "string \<Rightarrow> string" where
  "lower s = map lower_char s"

definition startswith :: "string \<Rightarrow> string \<Rightarrow> bool" where
  "startswith s p = prefix p s"

section \<open>Exceptions\<close>

text \<open>
  Every exception carries the text that \<open>str(e)\<close> gives. The first four classes are the
  scripts' own (\<open>AzureError\<close> is the SDK's base class, which the SDK script raises itself);
  the others are raised by the interpreter and the libraries.
\<close>

datatype exn =
    ConfigurationError string
  | InputError string
  | APIError string
  | AzureError string
  | JSONDecodeError string
  | HTTPException string
  | UnicodeDecodeError string
  | KeyError string
  | TypeError string
  | IndexError string
  | AttributeError string
  | EOFError string
  | OtherException string

fun str_exn :: "exn \<Rightarrow> string" where
  "str_exn (ConfigurationError m) = m"
| "str_exn (InputError m) = m"
| "str_exn (APIError m) = m"
| "str_exn (AzureError m) = m"
| "str_exn (JSONDecodeError m) = m"
| "str_exn (HTTPException m) = m"
| "str_exn (UnicodeDecodeError m) = m"
| "str_exn (KeyError m) = m"
| "str_exn (TypeError m) = m"
| "str_exn (IndexError m) = m"
| "str_exn (AttributeError m) = m"
| "str_exn (EOFError m) = m"
| "str_exn (OtherException m) = m"

section \<open>Configuration loader\<close>

text \<open>
  The environment is the one \<open>os.getenv\<close> reads once \<open>load_dotenv()\<close> has run: a map
  from variable names to values, \<open>None\<close> for a variable that is not set. Python's
  \<open>not v\<close> on an \<open>Optional[str]\<close> holds for \<open>None\<close> and for the empty string.
\<close>

type_synonym environ = "string \<rightharpoonup> string"

definition getenv :: "environ \<Rightarrow> string \<Rightarrow> string option" where
  "getenv env name = env name"

fun falsy :: "string option \<Rightarrow> bool" where
  "falsy None = True"
| "falsy (Some s) = (s = [])"

definition missing_msg :: string where
  "missing_msg =
     ''Missing required environment variables: AI_SERVICE_ENDPOINT and/or AI_SERVICE_KEY''"

definition scheme_msg :: string where
  "scheme_msg = ''AI_SERVICE_ENDPOINT must start with '' @ [CHR 0x27] @ ''https://'' @ [CHR 0x27]"

text \<open>\<open>validate_configuration\<close> of rest-client.py: the pair (endpoint, key).\<close>

definition validate_configuration :: "environ \<Rightarrow> exn + string \<times> string" where
  "validate_configuration env =
     (let endpoint = getenv env ''AI_SERVICE_ENDPOINT'';
          key = getenv env ''AI_SERVICE_KEY''
      in if falsy endpoint \<or> falsy key then Inl (ConfigurationError missing_msg)
         else if \<not> startswith (the endpoint) ''https://''
         then Inl (ConfigurationError scheme_msg)
         else Inr (the endpoint, the key))"

text \<open>\<open>Config\<close> and \<open>Config.from_env\<close> of sdk-client.py.\<close>

record Config =
  endpoint :: string
  key :: string

definition from_env :: "environ \<Rightarrow> exn + Config" where
  "from_env env =
     (let e = getenv env ''AI_SERVICE_ENDPOINT'';
          k = getenv env ''AI_SERVICE_KEY''
      in if falsy e \<or> falsy k then Inl (ConfigurationError missing_msg)
         else if \<not> startswith (the e) ''https://''
         then Inl (ConfigurationError scheme_msg)
         else Inr \<lparr>endpoint = the e, key = the k\<rparr>)"

section \<open>Input validator\<close>

text \<open>
  Python renders an \<open>int\<close> in decimal, with a minus sign when it is negative
  (\<open>str\<close>, and \<open>{...}\<close> in an f-string).
\<close>

fun digits :: "nat \<Rightarrow> string" where
  "digits n =
     (if n < 10 then [char_of (48 + n)]
      else digits (n div 10) @ [char_of (48 + n mod 10)])"

declare digits.simps [simp del]

definition str_int :: "int \<Rightarrow> string" where
  "str_int i = (if i < 0 then CHR ''-'' # digits (nat (- i)) else digits (nat i))"

text \<open>\<open>validate_text\<close> of rest-client.py.\<close>

definition validate_text :: "string \<Rightarrow> exn + unit" where
  "validate_text text =
     (if strip text = [] then Inl (InputError ''Text cannot be empty'')
      else if length text > 5000
      then Inl (InputError ''Text length exceeds maximum of 5000 characters'')
      else Inr ())"

text \<open>\<open>TextValidator\<close> of sdk-client.py.\<close>

definition MAX_TEXT_LENGTH :: int where
  "MAX_TEXT_LENGTH = 5000"

definition validate :: "string \<Rightarrow> exn + unit" where
  "validate text =
     (if strip text = [] then Inl (InputError ''Text cannot be empty'')
      else if int (length text) > MAX_TEXT_LENGTH
      then Inl (InputError (''Text length exceeds maximum of '' @ str_int MAX_TEXT_LENGTH
                            @ '' characters''))
      else Inr ())"

section \<open>JSON values\<close>

text \<open>
  What \<open>json.loads\<close> returns: \<open>None\<close>, a \<open>bool\<close>, an \<open>int\<close>, a \<open>float\<close> (kept as
  its \<open>repr\<close>), a \<open>str\<close>, a \<open>list\<close>, or a \<open>dict\<close> with \<open>str\<close> keys, in insertion
  order and without repeated keys.
\<close>

datatype json =
    JNull
  | JBool bool
  | JInt int
  | JFloat string
  | JString string
  | JArray "json list"
  | JObject "(string \<times> json) list"

text \<open>
  \<open>repr\<close> of a \<open>str\<close>: double quotes when the string holds a single quote and no double
  quote, single quotes otherwise; the quote and the backslash are escaped, tab, newline
  and carriage return are written \<open>\t\<close>, \<open>\n\<close>, \<open>\r\<close>, and each other code point that is
  not printable (below 32, 127 to 160, 173) is written \<open>\xhh\<close>.
\<close>

definition hex_digit :: "nat \<Rightarrow> char" where
  "hex_digit d = (if d < 10 then char_of (48 + d) else char_of (87 + d))"

definition repr_char :: "char \<Rightarrow> char \<Rightarrow> string" where
  "repr_char quote c =
     (let n = (of_char c :: nat)
      in if c = quote \<or> c = CHR 0x5C then [CHR 0x5C, c]
         else if n = 9 then [CHR 0x5C, CHR ''t'']
         else if n = 10 then [CHR 0x5C, CHR ''n'']
         else if n = 13 then [CHR 0x5C, CHR ''r'']
         else if n < 32 \<or> n = 127 then [CHR 0x5C, CHR ''x'', hex_digit (n div 16), hex_digit (n mod 16)]
         else if n < 127 then [c]
         else if n \<le> 160 \<or> n = 173 then [CHR 0x5C, CHR ''x'', hex_digit (n div 16), hex_digit (n mod 16)]
         else [c])"

definition repr_str :: "string \<Rightarrow> string" where
  "repr_str s =
     (let quote = (if CHR 0x27 \<in> set s \<and> CHR 0x22 \<notin> set s then CHR 0x22 else CHR 0x27)
      in quote # concat (map (repr_char quote) s) @ [quote])"

text \<open>
  \<open>repr\<close> of a value: a \<open>dict\<close> is written \<open>{k: v, ...}\<close> and a \<open>list\<close> \<open>[v, ...]\<close>,
  with the \<open>repr\<close> of the keys and of the values. \<open>str\<close> of a value is the string itself
  for a \<open>str\<close>, and its \<open>repr\<close> otherwise. This is Python's rendering, not \<open>json.dumps\<close>.
\<close>

fun join :: "string \<Rightarrow> string list \<Rightarrow> string" where
  "join sep [] = []"
| "join sep [x] = x"
| "join sep (x # y # ys) = x @ sep @ join sep (y # ys)"

fun repr_json :: "json \<Rightarrow> string" where
  "repr_json JNull = ''None''"
| "repr_json (JBool b) = (if b then ''True'' else ''False'')"
| "repr_json (JInt i) = str_int i"
| "repr_json (JFloat f) = f"
| "repr_json (JString s) = repr_str s"
| "repr_json (JArray xs) = ''['' @ join '', '' (map repr_json xs) @ '']''"
| "repr_json (JObject kvs) =
     ''{'' @ join '', '' (map (\<lambda>(k, v). repr_str k @ '': '' @ repr_json v) kvs) @ ''}''"

definition str_json :: "json \<Rightarrow> string" where
  "str_json v = (case v of JString s \<Rightarrow> s | _ \<Rightarrow> repr_json v)"

text \<open>
  \<open>x[k]\<close> for a \<open>str\<close> key \<open>k\<close>: a \<open>dict\<close> looks the key up and raises \<open>KeyError\<close>
  when it is absent; every other value raises \<open>TypeError\<close>.
\<close>

fun subscript :: "json \<Rightarrow> string \<Rightarrow> exn + json" where
  "subscript (JObject kvs) k =
     (case map_of kvs k of None \<Rightarrow> Inl (KeyError (repr_str k)) | Some v \<Rightarrow> Inr v)"
| "subscript (JArray xs) k = Inl (TypeError ''list indices must be integers or slices, not str'')"
| "subscript (JString s) k =
     Inl (TypeError (''string indices must be integers, not '' @ repr_str ''str''))"
| "subscript JNull k = Inl (TypeError (repr_str ''NoneType'' @ '' object is not subscriptable''))"
| "subscript (JBool b) k = Inl (TypeError (repr_str ''bool'' @ '' object is not subscriptable''))"
| "subscript (JInt i) k = Inl (TypeError (repr_str ''int'' @ '' object is not subscriptable''))"
| "subscript (JFloat f) k = Inl (TypeError (repr_str ''float'' @ '' object is not subscriptable''))"

text \<open>
  What a \<open>for\<close> loop iterates over: the elements of a \<open>list\<close>, the keys of a \<open>dict\<close>,
  the characters of a \<open>str\<close>; any other value raises \<open>TypeError\<close>.
\<close>

fun iterate :: "json \<Rightarrow> exn + json list" where
  "iterate (JArray xs) = Inr xs"
| "iterate (JObject kvs) = Inr (map (\<lambda>kv. JString (fst kv)) kvs)"
| "iterate (JString s) = Inr (map (\<lambda>c. JString [c]) s)"
| "iterate JNull = Inl (TypeError (repr_str ''NoneType'' @ '' object is not iterable''))"
| "iterate (JBool b) = Inl (TypeError (repr_str ''bool'' @ '' object is not iterable''))"
| "iterate (JInt i) = Inl (TypeError (repr_str ''int'' @ '' object is not iterable''))"
| "iterate (JFloat f) = Inl (TypeError (repr_str ''float'' @ '' object is not iterable''))"

section \<open>Console and network\<close>

text \<open>
  What a run does, in order. \<open>Prompt\<close> is the prompt \<open>input\<close> writes; \<open>Line s\<close> is
  \<open>print(s)\<close>; \<open>Echo j\<close> is \<open>print(json.dumps(j, indent=2))\<close>; \<open>Language v\<close> is
  \<open>print("\nLanguage:", v)\<close>. \<open>Call_validate\<close> and \<open>Call_client\<close> mark the loop's calls
  of the validator and of the language client with the text they get.
\<close>

datatype event =
    Prompt
  | Line string
  | Echo json
  | Language json
  | Call_validate string
  | Call_client string

type_synonym bytes = "nat list"

definition utf8_char :: "char \<Rightarrow> bytes" where
  "utf8_char c =
     (let n = (of_char c :: nat) in if n < 128 then [n] else [192 + n div 64, 128 + n mod 64])"

definition encode_utf8 :: "string \<Rightarrow> bytes" where
  "encode_utf8 s = concat (map utf8_char s)"

record http_request =
  host :: string
  http_method :: string
  path :: string
  body :: bytes
  headers :: "(string \<times> string) list"

text \<open>
  The network's answer to a request. \<open>Raises e\<close>: \<open>HTTPSConnection\<close>, \<open>request\<close>,
  \<open>getresponse\<close> or \<open>read\<close> raised \<open>e\<close> (\<open>HTTPException\<close> stands for
  \<open>http.client.HTTPException\<close> and its subclasses). \<open>Response st d\<close>: a response with
  status \<open>st\<close> was read; \<open>d\<close> is \<open>Inr data\<close> when its body decodes as UTF-8 to \<open>data\<close>,
  and \<open>Inl e\<close> when \<open>decode\<close> raises \<open>e\<close>.
\<close>

datatype http_outcome =
    Raises exn
  | Response int "exn + string"

type_synonym transport = "http_request \<Rightarrow> http_outcome"

text \<open>\<open>json.loads\<close>, the standard library's parser, is a parameter.\<close>

type_synonym loads = "string \<Rightarrow> exn + json"

section \<open>Language client over HTTP\<close>

definition rstrip_slash :: "string \<Rightarrow> string" where
  "rstrip_slash s = rev (dropWhile (\<lambda>c. c = CHR ''/'') (rev s))"

text \<open>\<open>s.replace(old, '')\<close>: every occurrence of \<open>old\<close>, left to right, is removed.\<close>

function remove_all :: "string \<Rightarrow> string \<Rightarrow> string" where
  "remove_all old s =
     (if s = [] then []
      else if old \<noteq> [] \<and> prefix old s then remove_all old (drop (length old) s)
      else hd s # remove_all old (tl s))"
  by pat_completeness auto
termination
  by (relation "measure (\<lambda>(old, s). length s)") auto

declare remove_all.simps [simp del]

definition jsonBody :: "string \<Rightarrow> json" where
  "jsonBody text = JObject [(''documents'', JArray [JObject [(''id'', JInt 1), (''text'', JString text)]])]"


definition uri :: "string \<Rightarrow> string" where
  "uri ep = remove_all ''https://'' (rstrip_slash ep)"

definition request :: "string \<Rightarrow> string \<Rightarrow> string \<Rightarrow> http_request" where
  "request ep k text =
     \<lparr>host = uri ep, http_method = ''POST'', path = ''/text/analytics/v3.1/languages?'',
      body = encode_utf8 (str_json (jsonBody text)),
      headers = [(''Content-Type'', ''application/json''), (''Ocp-Apim-Subscription-Key'', k)]\<rparr>"

text \<open>\<open>document["detectedLanguage"]["name"]\<close>.\<close>

definition detected_name :: "json \<Rightarrow> exn + json" where
  "detected_name document =
     (case subscript document ''detectedLanguage'' of
        Inl e \<Rightarrow> Inl e
      | Inr dl \<Rightarrow> subscript dl ''name'')"

text \<open>The loop over \<open>results["documents"]\<close>.\<close>

fun print_languages :: "json list \<Rightarrow> event list \<times> (exn + unit)" where
  "print_languages [] = ([], Inr ())"
| "print_languages (document # ds) =
     (case detected_name document of
        Inl e \<Rightarrow> ([], Inl e)
      | Inr name \<Rightarrow> (Language name # fst (print_languages ds), snd (print_languages ds)))"

text \<open>The three \<open>except\<close> clauses of \<open>GetLanguage\<close>, in their order.\<close>

fun wrap :: "exn \<Rightarrow> exn" where
  "wrap (JSONDecodeError m) = APIError (''Failed to parse API response: '' @ m)"
| "wrap (HTTPException m) = APIError (''HTTP error occurred: '' @ m)"
| "wrap e = APIError (''Unexpected error during API call: '' @ str_exn e)"

text \<open>The \<open>try\<close> block of \<open>GetLanguage\<close>: what it prints, and the exception it ends with.\<close>

definition try_block :: "transport \<Rightarrow> loads \<Rightarrow> string \<Rightarrow> string \<Rightarrow> string \<Rightarrow> event list \<times> (exn + unit)" where
  "try_block send json_loads ep k text =
     (case send (request ep k text) of
        Raises e \<Rightarrow> ([Echo (jsonBody text)], Inl e)
      | Response status d \<Rightarrow>
          (case d of
             Inl e \<Rightarrow> ([Echo (jsonBody text)], Inl e)
           | Inr data \<Rightarrow>
               if status = 200 then
                 (case json_loads data of
                    Inl e \<Rightarrow> ([Echo (jsonBody text)], Inl e)
                  | Inr results \<Rightarrow>
                      (case subscript results ''documents'' of
                         Inl e \<Rightarrow> ([Echo (jsonBody text), Echo results], Inl e)
                       | Inr docs \<Rightarrow>
                           (case iterate docs of
                              Inl e \<Rightarrow> ([Echo (jsonBody text), Echo results], Inl e)
                            | Inr ds \<Rightarrow>
                                ([Echo (jsonBody text), Echo results] @ fst (print_languages ds),
                                 snd (print_languages ds)))))
               else ([Echo (jsonBody text)],
                     Inl (APIError (''API returned status '' @ str_int status @ '': '' @ data)))))"

text \<open>
  \<open>GetLanguage\<close>: the events, and either the exception raised or the value returned,
  which is \<open>None\<close> (the function has no \<open>return\<close>).
\<close>

definition GetLanguage :: "transport \<Rightarrow> loads \<Rightarrow> string \<Rightarrow> string \<Rightarrow> string \<Rightarrow> event list \<times> (exn + string option)" where
  "GetLanguage send json_loads ep k text =
     (case try_block send json_loads ep k text of
        (evs, Inl e) \<Rightarrow> (evs, Inl (wrap e))
      | (evs, Inr u) \<Rightarrow> (evs, Inr None))"

section \<open>Language client over the SDK\<close>

text \<open>
  One entry of the list \<open>TextAnalyticsClient.detect_language\<close> returns: a result with the
  name of its primary language, or a \<open>DocumentError\<close>, on which reading
  \<open>primary_language\<close> raises \<open>AttributeError\<close> with the text kept here.
\<close>

datatype sdk_result =
    DetectLanguageResult string
  | DocumentError string

text \<open>
  The SDK's client is a parameter: from the documents to the list it returns or the
  exception it raises (\<open>AzureError\<close> stands for the class and its subclasses).
\<close>

type_synonym sdk_client = "string list \<Rightarrow> exn + sdk_result list"

definition item0 :: "'a list \<Rightarrow> exn + 'a" where
  "item0 xs = (case xs of [] \<Rightarrow> Inl (IndexError ''list index out of range'') | x # _ \<Rightarrow> Inr x)"

fun primary_language_name :: "sdk_result \<Rightarrow> exn + string" where
  "primary_language_name (DetectLanguageResult name) = Inr name"
| "primary_language_name (DocumentError m) = Inl (AttributeError m)"

text \<open>The \<open>except AzureError\<close> clause of \<open>detect_language\<close>: any other exception passes.\<close>

fun rethrow :: "exn \<Rightarrow> exn" where
  "rethrow (AzureError m) = AzureError (''Failed to detect language: '' @ m)"
| "rethrow e = e"

definition detect_language :: "sdk_client \<Rightarrow> string \<Rightarrow> exn + string" where
  "detect_language client text =
     (case client [text] of
        Inl e \<Rightarrow> Inl (rethrow e)
      | Inr rs \<Rightarrow>
          (case item0 rs of
             Inl e \<Rightarrow> Inl (rethrow e)
           | Inr detected_language \<Rightarrow>
               (case primary_language_name detected_language of
                  Inl e \<Rightarrow> Inl (rethrow e)
                | Inr name \<Rightarrow> Inr name)))"

section \<open>Interactive loop\<close>

text \<open>
  Standard input is the list of the lines still to be read; \<open>input\<close> raises \<open>EOFError\<close>
  once it is empty. The state of a loop is the value of \<open>userText\<close> (\<open>user_text\<close> in
  sdk-client.py), the lines left and the events so far.
\<close>

record loop_state =
  user_text :: string
  stdin :: "string list"
  trace :: "event list"

definition eof_msg :: string where
  "eof_msg = ''EOF when reading a line''"

text \<open>The \<open>except\<close> clauses of the loop in rest-client.py: the line each one prints.\<close>

fun rest_report :: "exn \<Rightarrow> string" where
  "rest_report (InputError m) = ''Input error: '' @ m"
| "rest_report (APIError m) = ''API error: '' @ m"
| "rest_report e = ''Unexpected error: '' @ str_exn e"

text \<open>What the \<open>try\<close> statement of the loop does once \<open>input\<close> has returned \<open>line\<close>.\<close>

definition rest_iteration :: "transport \<Rightarrow> loads \<Rightarrow> string \<Rightarrow> string \<Rightarrow> string \<Rightarrow> event list" where
  "rest_iteration send json_loads ep k line =
     (if lower line \<noteq> ''quit'' then
        (case validate_text line of
           Inl e \<Rightarrow> [Call_validate line, Line (rest_report e)]
         | Inr u \<Rightarrow>
             (case GetLanguage send json_loads ep k line of
                (evs, Inl e) \<Rightarrow> [Call_validate line, Call_client line] @ evs @ [Line (rest_report e)]
              | (evs, Inr r) \<Rightarrow> [Call_validate line, Call_client line] @ evs))
      else [])"

text \<open>
  One pass of the \<open>while\<close> loop: \<open>None\<close> when its condition is false and the loop is
  left, the next state otherwise.
\<close>

definition rest_step :: "transport \<Rightarrow> loads \<Rightarrow> string \<Rightarrow> string \<Rightarrow> loop_state \<Rightarrow> loop_state option" where
  "rest_step send json_loads ep k st =
     (if lower (user_text st) \<noteq> ''quit'' then
        (case stdin st of
           [] \<Rightarrow> Some (st\<lparr>trace := trace st @ [Prompt, Line (rest_report (EOFError eof_msg))]\<rparr>)
         | line # rest \<Rightarrow>
             Some \<lparr>user_text = line, stdin = rest,
                   trace = trace st @ Prompt # rest_iteration send json_loads ep k line\<rparr>)
      else None)"

text \<open>
  The loop may run forever, so it returns an \<open>option\<close>: the events of the whole run, or
  \<open>None\<close> when it does not return.
\<close>

partial_function (option) rest_loop ::
  "transport \<Rightarrow> loads \<Rightarrow> string \<Rightarrow> string \<Rightarrow> loop_state \<Rightarrow> event list option" where
  "rest_loop send json_loads ep k st =
     (case rest_step send json_loads ep k st of
        None \<Rightarrow> Some (trace st)
      | Some st' \<Rightarrow> rest_loop send json_loads ep k st')"

declare rest_loop.simps [code]

text \<open>
  \<open>main\<close> of rest-client.py: the events, and \<open>Inl e\<close> when \<open>e\<close> leaves \<open>main\<close>.
\<close>

definition rest_main ::
  "transport \<Rightarrow> loads \<Rightarrow> environ \<Rightarrow> string list \<Rightarrow> (event list \<times> (exn + unit)) option" where
  "rest_main send json_loads env lines =
     (case validate_configuration env of
        Inl e \<Rightarrow> Some ([Line (''Configuration error: '' @ str_exn e)], Inl e)
      | Inr (ep, k) \<Rightarrow>
          map_option (\<lambda>tr. (tr, Inr ()))
            (rest_loop send json_loads ep k \<lparr>user_text = [], stdin = lines, trace = []\<rparr>))"

text \<open>The \<open>except\<close> clauses of the loop in sdk-client.py.\<close>

fun sdk_report :: "exn \<Rightarrow> string" where
  "sdk_report (InputError m) = ''Input error: '' @ m"
| "sdk_report (AzureError m) = ''Azure service error: '' @ m"
| "sdk_report e = ''Unexpected error: '' @ str_exn e"

definition sdk_iteration :: "sdk_client \<Rightarrow> string \<Rightarrow> event list" where
  "sdk_iteration client line =
     (if lower line \<noteq> ''quit'' then
        (case validate line of
           Inl e \<Rightarrow> [Call_validate line, Line (sdk_report e)]
         | Inr u \<Rightarrow>
             (case detect_language client line of
                Inl e \<Rightarrow> [Call_validate line, Call_client line, Line (sdk_report e)]
              | Inr language \<Rightarrow>
                  [Call_validate line, Call_client line, Line (''Language: '' @ language)]))
      else [])"

definition sdk_step :: "sdk_client \<Rightarrow> loop_state \<Rightarrow> loop_state option" where
  "sdk_step client st =
     (if lower (user_text st) \<noteq> ''quit'' then
        (case stdin st of
           [] \<Rightarrow> Some (st\<lparr>trace := trace st @ [Prompt, Line (sdk_report (EOFError eof_msg))]\<rparr>)
         | line # rest \<Rightarrow>
             Some \<lparr>user_text = line, stdin = rest,
                   trace = trace st @ Prompt # sdk_iteration client line\<rparr>)
      else None)"

partial_function (option) sdk_loop :: "sdk_client \<Rightarrow> loop_state \<Rightarrow> event list option" where
  "sdk_loop client st =
     (case sdk_step client st of
        None \<Rightarrow> Some (trace st)
      | Some st' \<Rightarrow> sdk_loop client st')"

declare sdk_loop.simps [code]

text \<open>
  \<open>main\<close> of sdk-client.py. \<open>LanguageDetector(config)\<close> builds the SDK's client from
  the configuration: \<open>detector\<close> is that constructor, a parameter.
\<close>

definition sdk_main ::
  "(Config \<Rightarrow> sdk_client) \<Rightarrow> environ \<Rightarrow> string list \<Rightarrow> (event list \<times> (exn + unit)) option" where
  "sdk_main detector env lines =
     (case from_env env of
        Inl e \<Rightarrow> Some ([Line (''Configuration error: '' @ str_exn e)], Inl e)
      | Inr config \<Rightarrow>
          map_option (\<lambda>tr. (tr, Inr ()))
            (sdk_loop (detector config) \<lparr>user_text = [], stdin = lines, trace = []\<rparr>))"

section \<open>Facts about the strings\<close>

lemma strip_padded:
  assumes "\<not> isspace c" and "isspace w"
  shows "strip (c # replicate n w) = [c]"
proof -
  have "dropWhile isspace (replicate n w @ [c]) = [c]"
    using assms by (simp add: dropWhile_append)
  then show ?thesis
    using assms by (simp add: strip_def)
qed

lemma isspace_space: "isspace CHR '' ''"
  by (simp add: isspace_def)

lemma not_isspace_a: "\<not> isspace CHR ''a''"
  by (simp add: isspace_def)

lemmas char_eval = char_of_def bit_iff_odd

lemma str_int_max: "str_int MAX_TEXT_LENGTH = ''5000''"
  by (simp add: str_int_def MAX_TEXT_LENGTH_def digits.simps char_eval)

section \<open>The input validator\<close>

text \<open>
  C1, as stated, fails: the validator measures the text as typed, not its trimmed form.
  The letter a followed by 5000 spaces has the trimmed form a, which is non-empty and
  one character long, and both validators reject it with \<open>InputError\<close>.
\<close>

theorem validate_trimmed_length_counterexample:
  "strip (CHR ''a'' # replicate 5000 CHR '' '') \<noteq> []
   \<and> length (strip (CHR ''a'' # replicate 5000 CHR '' '')) \<le> 5000
   \<and> validate_text (CHR ''a'' # replicate 5000 CHR '' '')
       = Inl (InputError ''Text length exceeds maximum of 5000 characters'')
   \<and> validate (CHR ''a'' # replicate 5000 CHR '' '')
       = Inl (InputError ''Text length exceeds maximum of 5000 characters'')"
proof -
  have s: "strip (CHR ''a'' # replicate 5000 CHR '' '') = ''a''"
    by (rule strip_padded [OF not_isspace_a isspace_space])
  have l: "length (CHR ''a'' # replicate 5000 CHR '' '') = 5001"
    by simp
  show ?thesis
    unfolding validate_text_def validate_def s l str_int_max
    by (simp add: MAX_TEXT_LENGTH_def)
qed

text \<open>
  C1, amended: for every text whose trimmed form is non-empty and whose own length (before
  trimming) is at most 5000 characters, validation succeeds; for every text that is empty
  after trimming or whose own length exceeds 5000 characters, it fails with \<open>InputError\<close>.
  This holds for \<open>validate_text\<close> of rest-client.py and for \<open>TextValidator.validate\<close> of
  sdk-client.py.
\<close>

theorem validate_raw_length:
  "(strip text \<noteq> [] \<and> length text \<le> 5000 \<longrightarrow>
      validate_text text = Inr () \<and> validate text = Inr ())
   \<and> (strip text = [] \<or> length text > 5000 \<longrightarrow>
      (\<exists>m. validate_text text = Inl (InputError m)) \<and> (\<exists>m. validate text = Inl (InputError m)))"
  by (auto simp add: validate_text_def validate_def MAX_TEXT_LENGTH_def)

theorem validate_raw_length_witness:
  "(strip ''Hello'' \<noteq> [] \<and> length ''Hello'' \<le> 5000)
   \<and> validate_text ''Hello'' = Inr () \<and> validate ''Hello'' = Inr ()
   \<and> (strip ''  '' = [] \<or> length ''  '' > 5000)
   \<and> (\<exists>m. validate_text ''  '' = Inl (InputError m)) \<and> (\<exists>m. validate ''  '' = Inl (InputError m))"
proof -
  have a: "strip ''Hello'' \<noteq> [] \<and> length ''Hello'' \<le> 5000"
    by (simp add: strip_def isspace_def)
  have b: "strip ''  '' = [] \<or> length ''  '' > 5000"
    by (simp add: strip_def isspace_def)
  from a b validate_raw_length [of "''Hello''"] validate_raw_length [of "''  ''"]
  show ?thesis by blast
qed

section \<open>The configuration loader\<close>

lemma falsy_iff: "falsy v \<longleftrightarrow> v = None \<or> v = Some []"
  by (cases v) auto

lemma validate_configuration_cases:
  "validate_configuration env =
     (if falsy (env ''AI_SERVICE_ENDPOINT'') \<or> falsy (env ''AI_SERVICE_KEY'')
      then Inl (ConfigurationError missing_msg)
      else if \<not> prefix ''https://'' (the (env ''AI_SERVICE_ENDPOINT''))
      then Inl (ConfigurationError scheme_msg)
      else Inr (the (env ''AI_SERVICE_ENDPOINT''), the (env ''AI_SERVICE_KEY'')))"
  by (simp add: validate_configuration_def getenv_def startswith_def Let_def)

lemma from_env_cases:
  "from_env env =
     (if falsy (env ''AI_SERVICE_ENDPOINT'') \<or> falsy (env ''AI_SERVICE_KEY'')
      then Inl (ConfigurationError missing_msg)
      else if \<not> prefix ''https://'' (the (env ''AI_SERVICE_ENDPOINT''))
      then Inl (ConfigurationError scheme_msg)
      else Inr \<lparr>endpoint = the (env ''AI_SERVICE_ENDPOINT''), key = the (env ''AI_SERVICE_KEY'')\<rparr>)"
  by (simp add: from_env_def getenv_def startswith_def Let_def)

text \<open>
  C2, as stated, fails: with both variables set, the endpoint starting with https:// and
  the key set to the empty string, no variable is absent and the prefix is there, yet both
  loaders raise \<open>ConfigurationError\<close>.
\<close>

theorem load_empty_key_counterexample:
  "[''AI_SERVICE_ENDPOINT'' \<mapsto> ''https://e'', ''AI_SERVICE_KEY'' \<mapsto> []] ''AI_SERVICE_ENDPOINT''
     = Some ''https://e''
   \<and> [''AI_SERVICE_ENDPOINT'' \<mapsto> ''https://e'', ''AI_SERVICE_KEY'' \<mapsto> []] ''AI_SERVICE_KEY''
     = Some []
   \<and> startswith ''https://e'' ''https://''
   \<and> validate_configuration [''AI_SERVICE_ENDPOINT'' \<mapsto> ''https://e'', ''AI_SERVICE_KEY'' \<mapsto> []]
     = Inl (ConfigurationError missing_msg)
   \<and> from_env [''AI_SERVICE_ENDPOINT'' \<mapsto> ''https://e'', ''AI_SERVICE_KEY'' \<mapsto> []]
     = Inl (ConfigurationError missing_msg)"
  by (simp add: validate_configuration_cases from_env_cases startswith_def)

text \<open>
  C2, amended: the loader fails with \<open>ConfigurationError\<close> when either of the two
  variables is absent or set to the empty string, and when the endpoint does not start
  with https://; in every other case it succeeds and returns exactly the endpoint and the
  key of the environment; so every configuration it produces has an endpoint that starts
  with https:// and a non-empty key. This holds for \<open>validate_configuration\<close> and for
  \<open>Config.from_env\<close>.
\<close>

theorem load_contract:
  "(env ''AI_SERVICE_ENDPOINT'' \<in> {None, Some []} \<or> env ''AI_SERVICE_KEY'' \<in> {None, Some []} \<longrightarrow>
      validate_configuration env = Inl (ConfigurationError missing_msg)
      \<and> from_env env = Inl (ConfigurationError missing_msg))
   \<and> (env ''AI_SERVICE_ENDPOINT'' = Some e \<and> \<not> startswith e ''https://'' \<longrightarrow>
      (\<exists>m. validate_configuration env = Inl (ConfigurationError m))
      \<and> (\<exists>m. from_env env = Inl (ConfigurationError m)))
   \<and> (env ''AI_SERVICE_ENDPOINT'' = Some e \<and> env ''AI_SERVICE_KEY'' = Some k
        \<and> k \<noteq> [] \<and> startswith e ''https://'' \<longrightarrow>
      validate_configuration env = Inr (e, k) \<and> from_env env = Inr \<lparr>endpoint = e, key = k\<rparr>)
   \<and> (validate_configuration env = Inr (e', k') \<longrightarrow>
      env ''AI_SERVICE_ENDPOINT'' = Some e' \<and> env ''AI_SERVICE_KEY'' = Some k'
      \<and> startswith e' ''https://'' \<and> k' \<noteq> [])
   \<and> (from_env env = Inr c \<longrightarrow>
      env ''AI_SERVICE_ENDPOINT'' = Some (endpoint c) \<and> env ''AI_SERVICE_KEY'' = Some (key c)
      \<and> startswith (endpoint c) ''https://'' \<and> key c \<noteq> [])"
  unfolding validate_configuration_cases from_env_cases startswith_def falsy_iff
  by (auto split: if_splits)

theorem load_contract_witness:
  "validate_configuration [''AI_SERVICE_KEY'' \<mapsto> ''k''] = Inl (ConfigurationError missing_msg)
   \<and> from_env [''AI_SERVICE_KEY'' \<mapsto> ''k''] = Inl (ConfigurationError missing_msg)
   \<and> (\<exists>m. validate_configuration [''AI_SERVICE_ENDPOINT'' \<mapsto> ''http://e'', ''AI_SERVICE_KEY'' \<mapsto> ''k'']
          = Inl (ConfigurationError m))
   \<and> (\<exists>m. from_env [''AI_SERVICE_ENDPOINT'' \<mapsto> ''http://e'', ''AI_SERVICE_KEY'' \<mapsto> ''k'']
          = Inl (ConfigurationError m))
   \<and> validate_configuration [''AI_SERVICE_ENDPOINT'' \<mapsto> ''https://e'', ''AI_SERVICE_KEY'' \<mapsto> ''k'']
       = Inr (''https://e'', ''k'')
   \<and> from_env [''AI_SERVICE_ENDPOINT'' \<mapsto> ''https://e'', ''AI_SERVICE_KEY'' \<mapsto> ''k'']
       = Inr \<lparr>endpoint = ''https://e'', key = ''k''\<rparr>
   \<and> startswith ''https://e'' ''https://'' \<and> ''k'' \<noteq> []"
proof -
  let ?a = "[''AI_SERVICE_KEY'' \<mapsto> ''k'']"
  let ?b = "[''AI_SERVICE_ENDPOINT'' \<mapsto> ''http://e'', ''AI_SERVICE_KEY'' \<mapsto> ''k'']"
  let ?c = "[''AI_SERVICE_ENDPOINT'' \<mapsto> ''https://e'', ''AI_SERVICE_KEY'' \<mapsto> ''k'']"
  have a: "?a ''AI_SERVICE_ENDPOINT'' \<in> {None, Some []} \<or> ?a ''AI_SERVICE_KEY'' \<in> {None, Some []}"
    by simp
  have b: "?b ''AI_SERVICE_ENDPOINT'' = Some ''http://e'' \<and> \<not> startswith ''http://e'' ''https://''"
    by (simp add: startswith_def)
  have c: "?c ''AI_SERVICE_ENDPOINT'' = Some ''https://e'' \<and> ?c ''AI_SERVICE_KEY'' = Some ''k''
           \<and> ''k'' \<noteq> [] \<and> startswith ''https://e'' ''https://''"
    by (simp add: startswith_def)
  have 1: "validate_configuration ?a = Inl (ConfigurationError missing_msg)
           \<and> from_env ?a = Inl (ConfigurationError missing_msg)"
    using a load_contract [of ?a] by blast
  have 2: "(\<exists>m. validate_configuration ?b = Inl (ConfigurationError m))
           \<and> (\<exists>m. from_env ?b = Inl (ConfigurationError m))"
    using b load_contract [of ?b "''http://e''"] by blast
  have 3: "validate_configuration ?c = Inr (''https://e'', ''k'')
           \<and> from_env ?c = Inr \<lparr>endpoint = ''https://e'', key = ''k''\<rparr>"
    using c load_contract [of ?c "''https://e''" "''k''"] by blast
  have 4: "startswith ''https://e'' ''https://'' \<and> ''k'' \<noteq> []"
    using 3 load_contract [of ?c _ _ "''https://e''" "''k''"] by blast
  from 1 2 3 4 show ?thesis by blast
qed

text \<open>
  C9: the configuration loader raises \<open>ConfigurationError\<close> when AI_SERVICE_ENDPOINT or
  AI_SERVICE_KEY is set to the empty string, and the outcome is the one it has when that
  variable is absent, whatever the rest of the environment is. This holds for
  \<open>validate_configuration\<close> and for \<open>Config.from_env\<close>.
\<close>

theorem empty_like_missing:
  "v = ''AI_SERVICE_ENDPOINT'' \<or> v = ''AI_SERVICE_KEY'' \<Longrightarrow>
   validate_configuration (env(v \<mapsto> [])) = Inl (ConfigurationError missing_msg)
   \<and> validate_configuration (env(v \<mapsto> [])) = validate_configuration (env(v := None))
   \<and> from_env (env(v \<mapsto> [])) = Inl (ConfigurationError missing_msg)
   \<and> from_env (env(v \<mapsto> [])) = from_env (env(v := None))"
  unfolding validate_configuration_cases from_env_cases
  by auto

theorem empty_like_missing_witness:
  "validate_configuration ([''AI_SERVICE_ENDPOINT'' \<mapsto> ''https://e''](''AI_SERVICE_KEY'' \<mapsto> []))
     = Inl (ConfigurationError missing_msg)
   \<and> validate_configuration ([''AI_SERVICE_ENDPOINT'' \<mapsto> ''https://e''](''AI_SERVICE_KEY'' \<mapsto> []))
     = validate_configuration ([''AI_SERVICE_ENDPOINT'' \<mapsto> ''https://e''](''AI_SERVICE_KEY'' := None))
   \<and> from_env ([''AI_SERVICE_KEY'' \<mapsto> ''k''](''AI_SERVICE_ENDPOINT'' \<mapsto> []))
     = Inl (ConfigurationError missing_msg)
   \<and> from_env ([''AI_SERVICE_KEY'' \<mapsto> ''k''](''AI_SERVICE_ENDPOINT'' \<mapsto> []))
     = from_env ([''AI_SERVICE_KEY'' \<mapsto> ''k''](''AI_SERVICE_ENDPOINT'' := None))"
proof -
  have k: "''AI_SERVICE_KEY'' = ''AI_SERVICE_ENDPOINT'' \<or> ''AI_SERVICE_KEY'' = ''AI_SERVICE_KEY''"
    by simp
  have e: "''AI_SERVICE_ENDPOINT'' = ''AI_SERVICE_ENDPOINT'' \<or> ''AI_SERVICE_ENDPOINT'' = ''AI_SERVICE_KEY''"
    by simp
  show ?thesis
    using empty_like_missing [OF k, of "[''AI_SERVICE_ENDPOINT'' \<mapsto> ''https://e'']"]
      empty_like_missing [OF e, of "[''AI_SERVICE_KEY'' \<mapsto> ''k'']"]
    by blast
qed

section \<open>The interactive loop\<close>

lemma rest_loop_exit:
  "rest_step send json_loads ep k st = None \<Longrightarrow> rest_loop send json_loads ep k st = Some (trace st)"
  by (subst rest_loop.simps) simp

lemma rest_loop_next:
  "rest_step send json_loads ep k st = Some st' \<Longrightarrow>
   rest_loop send json_loads ep k st = rest_loop send json_loads ep k st'"
  by (subst rest_loop.simps) simp

lemma sdk_loop_exit: "sdk_step client st = None \<Longrightarrow> sdk_loop client st = Some (trace st)"
  by (subst sdk_loop.simps) simp

lemma sdk_loop_next: "sdk_step client st = Some st' \<Longrightarrow> sdk_loop client st = sdk_loop client st'"
  by (subst sdk_loop.simps) simp

lemma rest_step_line:
  assumes "lower (user_text st) \<noteq> ''quit''" and "stdin st = line # rest"
  shows "rest_step send json_loads ep k st =
         Some \<lparr>user_text = line, stdin = rest,
               trace = trace st @ Prompt # rest_iteration send json_loads ep k line\<rparr>"
  using assms by (simp add: rest_step_def)

lemma sdk_step_line:
  assumes "lower (user_text st) \<noteq> ''quit''" and "stdin st = line # rest"
  shows "sdk_step client st =
         Some \<lparr>user_text = line, stdin = rest, trace = trace st @ Prompt # sdk_iteration client line\<rparr>"
  using assms by (simp add: sdk_step_def)

lemma rest_step_quit: "lower (user_text st) = ''quit'' \<Longrightarrow> rest_step send json_loads ep k st = None"
  by (simp add: rest_step_def)

lemma sdk_step_quit: "lower (user_text st) = ''quit'' \<Longrightarrow> sdk_step client st = None"
  by (simp add: sdk_step_def)

text \<open>While the text last read is not the sentinel, the next pass starts with the prompt.\<close>

lemma rest_step_prompts:
  assumes "lower (user_text st) \<noteq> ''quit''"
  shows "\<exists>st'. rest_step send json_loads ep k st = Some st' \<and> prefix (trace st @ [Prompt]) (trace st')"
  using assms by (cases "stdin st") (simp_all add: rest_step_def)

lemma sdk_step_prompts:
  assumes "lower (user_text st) \<noteq> ''quit''"
  shows "\<exists>st'. sdk_step client st = Some st' \<and> prefix (trace st @ [Prompt]) (trace st')"
  using assms by (cases "stdin st") (simp_all add: sdk_step_def)

lemma lower_empty: "lower [] \<noteq> ''quit''"
  by (simp add: lower_def)

lemma lower_quit: "lower ''quit'' = ''quit''"
  by (simp add: lower_def lower_char_def)

lemma lower_QUIT: "lower ''QUIT'' = ''quit''"
  by (simp add: lower_def lower_char_def char_eval)

lemma lower_Hello: "lower ''Hello'' \<noteq> ''quit''"
  by (simp add: lower_def)

lemma lower_spaced: "lower '' quit'' \<noteq> ''quit''"
  by (simp add: lower_def)

lemma strip_spaced: "strip '' quit'' = ''quit''"
  by (simp add: strip_def isspace_def)

lemma validate_text_Hello: "validate_text ''Hello'' = Inr ()"
  by (simp add: validate_text_def strip_def isspace_def)

lemma validate_Hello: "validate ''Hello'' = Inr ()"
  by (simp add: validate_def strip_def isspace_def MAX_TEXT_LENGTH_def)

lemma validate_text_spaced: "validate_text '' quit'' = Inr ()"
  by (simp add: validate_text_def strip_spaced)

lemma validate_spaced: "validate '' quit'' = Inr ()"
  by (simp add: validate_def strip_spaced MAX_TEXT_LENGTH_def)

lemma validate_text_blank: "validate_text '' '' = Inl (InputError ''Text cannot be empty'')"
  by (simp add: validate_text_def strip_def isspace_def)

lemma validate_blank: "validate '' '' = Inl (InputError ''Text cannot be empty'')"
  by (simp add: validate_def strip_def isspace_def)

text \<open>
  C3, as stated, fails: the loops compare \<open>userText.lower()\<close> with the sentinel and do not
  trim. The line made of a space and quit has the trimmed, lower-case value quit, yet both
  loops validate it, call the client with it and prompt again; the run below ends only at
  the second line.
\<close>

theorem quit_untrimmed_counterexample:
  "lower (strip '' quit'') = ''quit''
   \<and> rest_loop (\<lambda>r. Raises (HTTPException ''down'')) (\<lambda>s. Inl (JSONDecodeError ''none''))
        ''https://e'' ''k'' \<lparr>user_text = [], stdin = ['' quit'', ''quit''], trace = []\<rparr>
      = Some [Prompt, Call_validate '' quit'', Call_client '' quit'', Echo (jsonBody '' quit''),
              Line ''API error: HTTP error occurred: down'', Prompt]
   \<and> sdk_loop (\<lambda>d. Inr [DetectLanguageResult ''English''])
        \<lparr>user_text = [], stdin = ['' quit'', ''quit''], trace = []\<rparr>
      = Some [Prompt, Call_validate '' quit'', Call_client '' quit'', Line ''Language: English'',
              Prompt]"
proof -
  let ?send = "\<lambda>r::http_request. Raises (HTTPException ''down'')"
  let ?loads = "\<lambda>s::string. (Inl (JSONDecodeError ''none'') :: exn + json)"
  let ?client = "\<lambda>d::string list. (Inr [DetectLanguageResult ''English''] :: exn + sdk_result list)"
  have it: "rest_iteration ?send ?loads ''https://e'' ''k'' '' quit''
            = [Call_validate '' quit'', Call_client '' quit'', Echo (jsonBody '' quit''),
               Line ''API error: HTTP error occurred: down'']"
    by (simp add: rest_iteration_def lower_spaced validate_text_spaced GetLanguage_def
        try_block_def)
  have r1: "rest_loop ?send ?loads ''https://e'' ''k''
              \<lparr>user_text = [], stdin = ['' quit'', ''quit''], trace = []\<rparr>
            = rest_loop ?send ?loads ''https://e'' ''k''
              \<lparr>user_text = '' quit'', stdin = [''quit''],
               trace = [Prompt, Call_validate '' quit'', Call_client '' quit'',
                        Echo (jsonBody '' quit''), Line ''API error: HTTP error occurred: down'']\<rparr>"
    by (rule rest_loop_next) (simp add: rest_step_def lower_empty it)
  have r2: "rest_loop ?send ?loads ''https://e'' ''k''
              \<lparr>user_text = '' quit'', stdin = [''quit''],
               trace = [Prompt, Call_validate '' quit'', Call_client '' quit'',
                        Echo (jsonBody '' quit''), Line ''API error: HTTP error occurred: down'']\<rparr>
            = rest_loop ?send ?loads ''https://e'' ''k''
              \<lparr>user_text = ''quit'', stdin = [],
               trace = [Prompt, Call_validate '' quit'', Call_client '' quit'',
                        Echo (jsonBody '' quit''), Line ''API error: HTTP error occurred: down'',
                        Prompt]\<rparr>"
    by (rule rest_loop_next) (simp add: rest_step_def lower_spaced rest_iteration_def lower_quit)
  have r3: "rest_loop ?send ?loads ''https://e'' ''k''
              \<lparr>user_text = ''quit'', stdin = [],
               trace = [Prompt, Call_validate '' quit'', Call_client '' quit'',
                        Echo (jsonBody '' quit''), Line ''API error: HTTP error occurred: down'',
                        Prompt]\<rparr>
            = Some [Prompt, Call_validate '' quit'', Call_client '' quit'',
                    Echo (jsonBody '' quit''), Line ''API error: HTTP error occurred: down'', Prompt]"
    using rest_loop_exit [OF rest_step_quit, of "\<lparr>user_text = ''quit'', stdin = [],
               trace = [Prompt, Call_validate '' quit'', Call_client '' quit'',
                        Echo (jsonBody '' quit''), Line ''API error: HTTP error occurred: down'',
                        Prompt]\<rparr>" ?send ?loads "''https://e''" "''k''"]
    by (simp add: lower_quit)
  have sit: "sdk_iteration ?client '' quit''
             = [Call_validate '' quit'', Call_client '' quit'', Line ''Language: English'']"
    by (simp add: sdk_iteration_def lower_spaced validate_spaced detect_language_def item0_def)
  have s1: "sdk_loop ?client \<lparr>user_text = [], stdin = ['' quit'', ''quit''], trace = []\<rparr>
            = sdk_loop ?client \<lparr>user_text = '' quit'', stdin = [''quit''],
                trace = [Prompt, Call_validate '' quit'', Call_client '' quit'',
                         Line ''Language: English'']\<rparr>"
    by (rule sdk_loop_next) (simp add: sdk_step_def lower_empty sit)
  have s2: "sdk_loop ?client \<lparr>user_text = '' quit'', stdin = [''quit''],
                trace = [Prompt, Call_validate '' quit'', Call_client '' quit'',
                         Line ''Language: English'']\<rparr>
            = sdk_loop ?client \<lparr>user_text = ''quit'', stdin = [],
                trace = [Prompt, Call_validate '' quit'', Call_client '' quit'',
                         Line ''Language: English'', Prompt]\<rparr>"
    by (rule sdk_loop_next) (simp add: sdk_step_def lower_spaced sdk_iteration_def lower_quit)
  have s3: "sdk_loop ?client \<lparr>user_text = ''quit'', stdin = [],
                trace = [Prompt, Call_validate '' quit'', Call_client '' quit'',
                         Line ''Language: English'', Prompt]\<rparr>
            = Some [Prompt, Call_validate '' quit'', Call_client '' quit'',
                    Line ''Language: English'', Prompt]"
    using sdk_loop_exit [OF sdk_step_quit, of "\<lparr>user_text = ''quit'', stdin = [],
                trace = [Prompt, Call_validate '' quit'', Call_client '' quit'',
                         Line ''Language: English'', Prompt]\<rparr>" ?client]
    by (simp add: lower_quit)
  show ?thesis
    using r1 r2 r3 s1 s2 s3 by (simp add: strip_spaced lower_quit)
qed

text \<open>
  C3, amended: for every line read from standard input whose case-insensitive value, as
  typed and without trimming, equals the sentinel word quit, the interactive loop
  terminates normally without invoking the validator or the language client on that line:
  the pass that reads the line adds the prompt and nothing else to the run, the loop is
  left, and the lines after it are not read. This holds for both scripts, and \<open>main\<close>
  returns normally when such a line is the first one.
\<close>

theorem quit_line_ends_loop:
  assumes "lower line = ''quit''"
    and "lower (user_text st) \<noteq> ''quit''"
    and "stdin st = line # rest"
  shows "rest_step send json_loads ep k st
           = Some \<lparr>user_text = line, stdin = rest, trace = trace st @ [Prompt]\<rparr>
         \<and> rest_loop send json_loads ep k st = Some (trace st @ [Prompt])
         \<and> sdk_step client st
           = Some \<lparr>user_text = line, stdin = rest, trace = trace st @ [Prompt]\<rparr>
         \<and> sdk_loop client st = Some (trace st @ [Prompt])
         \<and> (validate_configuration env = Inr (ep, k) \<longrightarrow>
              rest_main send json_loads env (line # rest) = Some ([Prompt], Inr ()))
         \<and> (from_env env = Inr config \<longrightarrow>
              sdk_main detector env (line # rest) = Some ([Prompt], Inr ()))"
proof -
  let ?st' = "\<lparr>user_text = line, stdin = rest, trace = trace st @ [Prompt]\<rparr>"
  have r: "rest_step send json_loads ep k st = Some ?st'" for send json_loads ep k
    using assms by (simp add: rest_step_line rest_iteration_def)
  have s: "sdk_step client st = Some ?st'" for client
    using assms by (simp add: sdk_step_line sdk_iteration_def)
  have q: "lower (user_text ?st') = ''quit''"
    using assms(1) by simp
  have rl: "rest_loop send json_loads ep k st = Some (trace st @ [Prompt])"
    using rest_loop_next [OF r] rest_loop_exit [OF rest_step_quit [OF q]] by simp
  have sl: "sdk_loop client st = Some (trace st @ [Prompt])"
    using sdk_loop_next [OF s] sdk_loop_exit [OF sdk_step_quit [OF q]] by simp
  let ?i = "\<lparr>user_text = [], stdin = line # rest, trace = []\<rparr>"
  let ?i' = "\<lparr>user_text = line, stdin = rest, trace = [Prompt]\<rparr>"
  have q': "lower (user_text ?i') = ''quit''"
    using assms(1) by simp
  have ri: "rest_step send json_loads ep k ?i = Some ?i'" for send json_loads ep k
    using assms(1) by (simp add: rest_step_def lower_empty rest_iteration_def)
  have si: "sdk_step client ?i = Some ?i'" for client
    using assms(1) by (simp add: sdk_step_def lower_empty sdk_iteration_def)
  have rm: "rest_loop send json_loads ep k ?i = Some [Prompt]" for ep k
    using rest_loop_next [OF ri] rest_loop_exit [OF rest_step_quit [OF q']] by simp
  have sm: "sdk_loop c ?i = Some [Prompt]" for c
    using sdk_loop_next [OF si] sdk_loop_exit [OF sdk_step_quit [OF q']] by simp
  show ?thesis
    using r s rl sl by (simp add: rest_main_def sdk_main_def rm sm)
qed

theorem quit_line_ends_loop_witness:
  "lower ''QUIT'' = ''quit''
   \<and> lower (user_text \<lparr>user_text = ''Hello'', stdin = [''QUIT'', ''more''], trace = [Prompt]\<rparr>) \<noteq> ''quit''
   \<and> rest_loop (\<lambda>r. Raises (HTTPException ''down'')) (\<lambda>s. Inl (JSONDecodeError ''none''))
        ''https://e'' ''k'' \<lparr>user_text = ''Hello'', stdin = [''QUIT'', ''more''], trace = [Prompt]\<rparr>
      = Some [Prompt, Prompt]
   \<and> sdk_loop (\<lambda>d. Inr []) \<lparr>user_text = ''Hello'', stdin = [''QUIT'', ''more''], trace = [Prompt]\<rparr>
      = Some [Prompt, Prompt]
   \<and> rest_main (\<lambda>r. Raises (HTTPException ''down'')) (\<lambda>s. Inl (JSONDecodeError ''none''))
        [''AI_SERVICE_ENDPOINT'' \<mapsto> ''https://e'', ''AI_SERVICE_KEY'' \<mapsto> ''k''] [''QUIT'', ''more'']
      = Some ([Prompt], Inr ())
   \<and> sdk_main (\<lambda>c d. Inr [])
        [''AI_SERVICE_ENDPOINT'' \<mapsto> ''https://e'', ''AI_SERVICE_KEY'' \<mapsto> ''k''] [''QUIT'', ''more'']
      = Some ([Prompt], Inr ())"
proof -
  let ?st = "\<lparr>user_text = ''Hello'', stdin = [''QUIT'', ''more''], trace = [Prompt]\<rparr>"
  let ?env = "[''AI_SERVICE_ENDPOINT'' \<mapsto> ''https://e'', ''AI_SERVICE_KEY'' \<mapsto> ''k'']"
  have a: "lower (user_text ?st) \<noteq> ''quit''"
    by (simp add: lower_Hello)
  have b: "stdin ?st = ''QUIT'' # [''more'']"
    by simp
  have c: "validate_configuration ?env = Inr (''https://e'', ''k'')"
    by (simp add: validate_configuration_cases)
  have d: "from_env ?env = Inr \<lparr>endpoint = ''https://e'', key = ''k''\<rparr>"
    by (simp add: from_env_cases)
  show ?thesis
    using quit_line_ends_loop [OF lower_QUIT a b,
        of "\<lambda>r. Raises (HTTPException ''down'')" "\<lambda>s. Inl (JSONDecodeError ''none'')"
           "''https://e''" "''k''" "\<lambda>d. Inr []" ?env "\<lparr>endpoint = ''https://e'', key = ''k''\<rparr>"
           "\<lambda>c d. Inr []"] a c d lower_QUIT
    by simp
qed

section \<open>When the loop returns\<close>

lemma rest_step_None_iff:
  "rest_step send json_loads ep k st = None \<longleftrightarrow> lower (user_text st) = ''quit''"
  by (simp add: rest_step_def split: list.splits)

lemma sdk_step_None_iff: "sdk_step client st = None \<longleftrightarrow> lower (user_text st) = ''quit''"
  by (simp add: sdk_step_def split: list.splits)

lemma rest_loop_returns_at_quit:
  assumes "rest_loop send json_loads ep k st = Some y"
  shows "lower (user_text st) = ''quit'' \<or> (\<exists>l\<in>set (stdin st). lower l = ''quit'')"
proof (rule rest_loop.raw_induct
    [where P = "\<lambda>send json_loads ep k st y.
                  lower (user_text st) = ''quit'' \<or> (\<exists>l\<in>set (stdin st). lower l = ''quit'')",
     OF _ assms])
  fix loop send json_loads ep k st y
  assume ih: "\<And>send json_loads ep k st y. loop send json_loads ep k st = Some y \<Longrightarrow>
                lower (user_text st) = ''quit'' \<or> (\<exists>l\<in>set (stdin st). lower l = ''quit'')"
    and run: "(case rest_step send json_loads ep k st of None \<Rightarrow> Some (trace st)
               | Some st' \<Rightarrow> loop send json_loads ep k st') = Some y"
  show "lower (user_text st) = ''quit'' \<or> (\<exists>l\<in>set (stdin st). lower l = ''quit'')"
  proof (cases "rest_step send json_loads ep k st")
    case None
    then show ?thesis by (simp add: rest_step_def split: if_splits list.splits)
  next
    case (Some st')
    with run have "loop send json_loads ep k st' = Some y"
      by simp
    then have "lower (user_text st') = ''quit'' \<or> (\<exists>l\<in>set (stdin st'). lower l = ''quit'')"
      by (rule ih)
    with Some show ?thesis
      by (auto simp add: rest_step_def split: if_splits list.splits)
  qed
qed

lemma sdk_loop_returns_at_quit:
  assumes "sdk_loop client st = Some y"
  shows "lower (user_text st) = ''quit'' \<or> (\<exists>l\<in>set (stdin st). lower l = ''quit'')"
proof (rule sdk_loop.raw_induct
    [where P = "\<lambda>client st y.
                  lower (user_text st) = ''quit'' \<or> (\<exists>l\<in>set (stdin st). lower l = ''quit'')",
     OF _ assms])
  fix loop client st y
  assume ih: "\<And>client st y. loop client st = Some y \<Longrightarrow>
                lower (user_text st) = ''quit'' \<or> (\<exists>l\<in>set (stdin st). lower l = ''quit'')"
    and run: "(case sdk_step client st of None \<Rightarrow> Some (trace st)
               | Some st' \<Rightarrow> loop client st') = Some y"
  show "lower (user_text st) = ''quit'' \<or> (\<exists>l\<in>set (stdin st). lower l = ''quit'')"
  proof (cases "sdk_step client st")
    case None
    then show ?thesis by (simp add: sdk_step_def split: if_splits list.splits)
  next
    case (Some st')
    with run have "loop client st' = Some y"
      by simp
    then have "lower (user_text st') = ''quit'' \<or> (\<exists>l\<in>set (stdin st'). lower l = ''quit'')"
      by (rule ih)
    with Some show ?thesis
      by (auto simp add: sdk_step_def split: if_splits list.splits)
  qed
qed

lemma rest_loop_quit_returns:
  assumes "lower (user_text st) = ''quit'' \<or> (\<exists>l\<in>set (stdin st). lower l = ''quit'')"
  shows "\<exists>y. rest_loop send json_loads ep k st = Some y"
  using assms
proof (induction "stdin st" arbitrary: st)
  case Nil
  then have "lower (user_text st) = ''quit''" by simp
  then show ?case
    using rest_loop_exit [OF rest_step_quit] by blast
next
  case (Cons l rest)
  show ?case
  proof (cases "lower (user_text st) = ''quit''")
    case True
    then show ?thesis
      using rest_loop_exit [OF rest_step_quit] by blast
  next
    case False
    let ?st' = "\<lparr>user_text = l, stdin = rest,
                 trace = trace st @ Prompt # rest_iteration send json_loads ep k l\<rparr>"
    have step: "rest_step send json_loads ep k st = Some ?st'"
      using False Cons.hyps(2) by (simp add: rest_step_line)
    have "lower (user_text ?st') = ''quit'' \<or> (\<exists>l\<in>set (stdin ?st'). lower l = ''quit'')"
      using Cons.prems False Cons.hyps(2) [symmetric] by auto
    moreover have "rest = stdin ?st'"
      by simp
    ultimately have "\<exists>y. rest_loop send json_loads ep k ?st' = Some y"
      by (rule Cons.hyps(1) [rotated])
    then show ?thesis
      by (simp add: rest_loop_next [OF step])
  qed
qed

lemma sdk_loop_quit_returns:
  assumes "lower (user_text st) = ''quit'' \<or> (\<exists>l\<in>set (stdin st). lower l = ''quit'')"
  shows "\<exists>y. sdk_loop client st = Some y"
  using assms
proof (induction "stdin st" arbitrary: st)
  case Nil
  then have "lower (user_text st) = ''quit''" by simp
  then show ?case
    using sdk_loop_exit [OF sdk_step_quit] by blast
next
  case (Cons l rest)
  show ?case
  proof (cases "lower (user_text st) = ''quit''")
    case True
    then show ?thesis
      using sdk_loop_exit [OF sdk_step_quit] by blast
  next
    case False
    let ?st' = "\<lparr>user_text = l, stdin = rest, trace = trace st @ Prompt # sdk_iteration client l\<rparr>"
    have step: "sdk_step client st = Some ?st'"
      using False Cons.hyps(2) by (simp add: sdk_step_line)
    have "lower (user_text ?st') = ''quit'' \<or> (\<exists>l\<in>set (stdin ?st'). lower l = ''quit'')"
      using Cons.prems False Cons.hyps(2) [symmetric] by auto
    moreover have "rest = stdin ?st'"
      by simp
    ultimately have "\<exists>y. sdk_loop client ?st' = Some y"
      by (rule Cons.hyps(1) [rotated])
    then show ?thesis
      by (simp add: sdk_loop_next [OF step])
  qed
qed

text \<open>
  Either loop returns exactly when the sentinel is read: when the text last read, or
  one of the lines still on standard input, is quit in any letter case. When standard
  input ends before that, \<open>input\<close> raises \<open>EOFError\<close> in every further pass, the
  generic handler prints it, and the loop never returns.
\<close>

theorem loop_returns_iff_quit_read:
  "(rest_loop send json_loads ep k st \<noteq> None
      \<longleftrightarrow> lower (user_text st) = ''quit'' \<or> (\<exists>l\<in>set (stdin st). lower l = ''quit''))
   \<and> (sdk_loop client st \<noteq> None
      \<longleftrightarrow> lower (user_text st) = ''quit'' \<or> (\<exists>l\<in>set (stdin st). lower l = ''quit''))"
proof -
  have "rest_loop send json_loads ep k st \<noteq> None
        \<longleftrightarrow> lower (user_text st) = ''quit'' \<or> (\<exists>l\<in>set (stdin st). lower l = ''quit'')"
    using rest_loop_returns_at_quit [of send json_loads ep k st]
      rest_loop_quit_returns [of st send json_loads ep k]
    by (cases "rest_loop send json_loads ep k st") auto
  moreover have "sdk_loop client st \<noteq> None
        \<longleftrightarrow> lower (user_text st) = ''quit'' \<or> (\<exists>l\<in>set (stdin st). lower l = ''quit'')"
    using sdk_loop_returns_at_quit [of client st] sdk_loop_quit_returns [of st client]
    by (cases "sdk_loop client st") auto
  ultimately show ?thesis by (rule conjI)
qed

theorem loop_returns_iff_quit_read_witness:
  "rest_loop (\<lambda>r. Raises (HTTPException ''down'')) (\<lambda>s. Inl (JSONDecodeError ''none''))
     ''https://e'' ''k'' \<lparr>user_text = [], stdin = [''Hello''], trace = []\<rparr> = None
   \<and> sdk_loop (\<lambda>d. Inr []) \<lparr>user_text = [], stdin = [''Hello'', ''QUIT''], trace = []\<rparr> \<noteq> None"
proof -
  let ?a = "\<lparr>user_text = [], stdin = [''Hello''], trace = ([] :: event list)\<rparr>"
  let ?b = "\<lparr>user_text = [], stdin = [''Hello'', ''QUIT''], trace = ([] :: event list)\<rparr>"
  have a: "\<not> (lower (user_text ?a) = ''quit'' \<or> (\<exists>l\<in>set (stdin ?a). lower l = ''quit''))"
    using lower_empty lower_Hello by simp
  have b: "lower (user_text ?b) = ''quit'' \<or> (\<exists>l\<in>set (stdin ?b). lower l = ''quit'')"
    using lower_QUIT by simp
  note t = loop_returns_iff_quit_read
  have 1: "rest_loop (\<lambda>r. Raises (HTTPException ''down'')) (\<lambda>s. Inl (JSONDecodeError ''none''))
             ''https://e'' ''k'' ?a = None"
    using a t [where st = ?a, THEN conjunct1] by blast
  have 2: "sdk_loop (\<lambda>d. Inr []) ?b \<noteq> None"
    using b t [where st = ?b, THEN conjunct2] by blast
  from 1 2 show ?thesis
    by (rule conjI)
qed

section \<open>Errors inside the loop\<close>

lemma validate_text_error: "validate_text t = Inl e \<Longrightarrow> e = InputError (str_exn e)"
  by (auto simp add: validate_text_def split: if_splits)

lemma validate_error: "validate t = Inl e \<Longrightarrow> e = InputError (str_exn e)"
  by (auto simp add: validate_def split: if_splits)

lemma wrap_APIError: "wrap e = APIError (str_exn (wrap e))"
  by (cases e) simp_all

lemma GetLanguage_error:
  "GetLanguage send json_loads ep k t = (evs, Inl e) \<Longrightarrow> e = APIError (str_exn e)"
  using wrap_APIError
  by (auto simp add: GetLanguage_def split: prod.splits sum.splits)

lemma rest_main_fatal:
  "rest_main send json_loads env lines = Some (tr, Inl e) \<Longrightarrow> validate_configuration env = Inl e"
  by (auto simp add: rest_main_def split: sum.splits prod.splits)

lemma sdk_main_fatal:
  "sdk_main detector env lines = Some (tr, Inl e) \<Longrightarrow> from_env env = Inl e"
  by (auto simp add: sdk_main_def split: sum.splits)

lemma rest_main_runs_loop:
  "validate_configuration env = Inr (ep, k) \<Longrightarrow>
   rest_main send json_loads env lines
     = map_option (\<lambda>tr. (tr, Inr ()))
         (rest_loop send json_loads ep k \<lparr>user_text = [], stdin = lines, trace = []\<rparr>)"
  by (simp add: rest_main_def)

lemma sdk_main_runs_loop:
  "from_env env = Inr config \<Longrightarrow>
   sdk_main detector env lines
     = map_option (\<lambda>tr. (tr, Inr ()))
         (sdk_loop (detector config) \<lparr>user_text = [], stdin = lines, trace = []\<rparr>)"
  by (simp add: sdk_main_def)

text \<open>What a loop returns starts with what had been printed before.\<close>

lemma rest_loop_extends:
  assumes "rest_loop send json_loads ep k st = Some tr"
  shows "prefix (trace st) tr"
proof (rule rest_loop.raw_induct
    [where P = "\<lambda>send json_loads ep k st tr. prefix (trace st) tr", OF _ assms])
  fix loop send json_loads ep k st tr
  assume ih: "\<And>send json_loads ep k st tr. loop send json_loads ep k st = Some tr \<Longrightarrow>
                prefix (trace st) tr"
    and run: "(case rest_step send json_loads ep k st of None \<Rightarrow> Some (trace st)
               | Some st' \<Rightarrow> loop send json_loads ep k st') = Some tr"
  show "prefix (trace st) tr"
  proof (cases "rest_step send json_loads ep k st")
    case None
    with run show ?thesis by simp
  next
    case (Some st')
    with run have "loop send json_loads ep k st' = Some tr"
      by simp
    then have "prefix (trace st') tr"
      by (rule ih)
    moreover from Some have "prefix (trace st) (trace st')"
      by (auto simp add: rest_step_def split: if_splits list.splits)
    ultimately show ?thesis
      by (rule prefix_order.trans [rotated])
  qed
qed

lemma sdk_loop_extends:
  assumes "sdk_loop client st = Some tr"
  shows "prefix (trace st) tr"
proof (rule sdk_loop.raw_induct [where P = "\<lambda>client st tr. prefix (trace st) tr", OF _ assms])
  fix loop client st tr
  assume ih: "\<And>client st tr. loop client st = Some tr \<Longrightarrow> prefix (trace st) tr"
    and run: "(case sdk_step client st of None \<Rightarrow> Some (trace st)
               | Some st' \<Rightarrow> loop client st') = Some tr"
  show "prefix (trace st) tr"
  proof (cases "sdk_step client st")
    case None
    with run show ?thesis by simp
  next
    case (Some st')
    with run have "loop client st' = Some tr"
      by simp
    then have "prefix (trace st') tr"
      by (rule ih)
    moreover from Some have "prefix (trace st) (trace st')"
      by (auto simp add: sdk_step_def split: if_splits list.splits)
    ultimately show ?thesis
      by (rule prefix_order.trans [rotated])
  qed
qed

text \<open>
  A pass that reads a line other than the sentinel: the step, what the whole loop then
  returns, and that it returns when the sentinel is among the lines left.
\<close>

lemma rest_pass:
  assumes "lower (user_text st) \<noteq> ''quit''" and "stdin st = line # rest"
    and "lower line \<noteq> ''quit''"
    and "rest_iteration send json_loads ep k line = evs"
  shows "\<exists>st'. rest_step send json_loads ep k st = Some st'
           \<and> trace st' = trace st @ Prompt # evs
           \<and> (\<exists>st''. rest_step send json_loads ep k st' = Some st''
                 \<and> prefix (trace st' @ [Prompt]) (trace st''))"
proof -
  let ?st' = "\<lparr>user_text = line, stdin = rest, trace = trace st @ Prompt # evs\<rparr>"
  have "rest_step send json_loads ep k st = Some ?st'"
    using assms by (simp add: rest_step_line)
  moreover have "\<exists>st''. rest_step send json_loads ep k ?st' = Some st''
                   \<and> prefix (trace ?st' @ [Prompt]) (trace st'')"
    by (rule rest_step_prompts) (simp add: assms(3))
  ultimately show ?thesis by simp
qed

lemma rest_loop_pass:
  assumes "lower (user_text st) \<noteq> ''quit''" and "stdin st = line # rest"
    and "lower line \<noteq> ''quit''"
    and "rest_iteration send json_loads ep k line = evs"
  shows "rest_loop send json_loads ep k st = Some tr \<Longrightarrow>
         prefix (trace st @ Prompt # evs @ [Prompt]) tr"
    and "\<exists>l\<in>set rest. lower l = ''quit'' \<Longrightarrow> \<exists>tr. rest_loop send json_loads ep k st = Some tr"
proof -
  let ?st' = "\<lparr>user_text = line, stdin = rest, trace = trace st @ Prompt # evs\<rparr>"
  have 1: "rest_step send json_loads ep k st = Some ?st'"
    using assms by (simp add: rest_step_line)
  obtain st'' where 2: "rest_step send json_loads ep k ?st' = Some st''"
    and 3: "prefix (trace ?st' @ [Prompt]) (trace st'')"
    using rest_step_prompts [of ?st' send json_loads ep k] assms(3) by auto
  have eq: "rest_loop send json_loads ep k st = rest_loop send json_loads ep k st''"
    using rest_loop_next [OF 1] rest_loop_next [OF 2] by simp
  show "prefix (trace st @ Prompt # evs @ [Prompt]) tr"
    if "rest_loop send json_loads ep k st = Some tr"
  proof -
    from that eq have "prefix (trace st'') tr"
      by (simp add: rest_loop_extends)
    with 3 have "prefix (trace ?st' @ [Prompt]) tr"
      by (rule prefix_order.trans)
    then show ?thesis by simp
  qed
  show "\<exists>tr. rest_loop send json_loads ep k st = Some tr"
    if "\<exists>l\<in>set rest. lower l = ''quit''"
  proof -
    from that
    have "lower (user_text ?st') = ''quit'' \<or> (\<exists>l\<in>set (stdin ?st'). lower l = ''quit'')"
      by simp
    then have "\<exists>tr. rest_loop send json_loads ep k ?st' = Some tr"
      by (rule rest_loop_quit_returns)
    then show ?thesis
      by (simp add: rest_loop_next [OF 1])
  qed
qed

lemma sdk_pass:
  assumes "lower (user_text st) \<noteq> ''quit''" and "stdin st = line # rest"
    and "lower line \<noteq> ''quit''"
    and "sdk_iteration client line = evs"
  shows "\<exists>st'. sdk_step client st = Some st'
           \<and> trace st' = trace st @ Prompt # evs
           \<and> (\<exists>st''. sdk_step client st' = Some st'' \<and> prefix (trace st' @ [Prompt]) (trace st''))"
proof -
  let ?st' = "\<lparr>user_text = line, stdin = rest, trace = trace st @ Prompt # evs\<rparr>"
  have "sdk_step client st = Some ?st'"
    using assms by (simp add: sdk_step_line)
  moreover have "\<exists>st''. sdk_step client ?st' = Some st'' \<and> prefix (trace ?st' @ [Prompt]) (trace st'')"
    by (rule sdk_step_prompts) (simp add: assms(3))
  ultimately show ?thesis by simp
qed

lemma sdk_loop_pass:
  assumes "lower (user_text st) \<noteq> ''quit''" and "stdin st = line # rest"
    and "lower line \<noteq> ''quit''"
    and "sdk_iteration client line = evs"
  shows "sdk_loop client st = Some tr \<Longrightarrow> prefix (trace st @ Prompt # evs @ [Prompt]) tr"
    and "\<exists>l\<in>set rest. lower l = ''quit'' \<Longrightarrow> \<exists>tr. sdk_loop client st = Some tr"
proof -
  let ?st' = "\<lparr>user_text = line, stdin = rest, trace = trace st @ Prompt # evs\<rparr>"
  have 1: "sdk_step client st = Some ?st'"
    using assms by (simp add: sdk_step_line)
  obtain st'' where 2: "sdk_step client ?st' = Some st''"
    and 3: "prefix (trace ?st' @ [Prompt]) (trace st'')"
    using sdk_step_prompts [of ?st' client] assms(3) by auto
  have eq: "sdk_loop client st = sdk_loop client st''"
    using sdk_loop_next [OF 1] sdk_loop_next [OF 2] by simp
  show "prefix (trace st @ Prompt # evs @ [Prompt]) tr"
    if "sdk_loop client st = Some tr"
  proof -
    from that eq have "prefix (trace st'') tr"
      by (simp add: sdk_loop_extends)
    with 3 have "prefix (trace ?st' @ [Prompt]) tr"
      by (rule prefix_order.trans)
    then show ?thesis by simp
  qed
  show "\<exists>tr. sdk_loop client st = Some tr"
    if "\<exists>l\<in>set rest. lower l = ''quit''"
  proof -
    from that
    have "lower (user_text ?st') = ''quit'' \<or> (\<exists>l\<in>set (stdin ?st'). lower l = ''quit'')"
      by simp
    then have "\<exists>tr. sdk_loop client ?st' = Some tr"
      by (rule sdk_loop_quit_returns)
    then show ?thesis
      by (simp add: sdk_loop_next [OF 1])
  qed
qed

text \<open>
  A pass at the end of standard input: \<open>input\<close> raises \<open>EOFError\<close>, and so it does in
  every later pass, so the loop does not return.
\<close>

lemma rest_eof_pass:
  assumes "lower (user_text st) \<noteq> ''quit''" and "stdin st = []"
  shows "\<exists>st'. rest_step send json_loads ep k st = Some st'
           \<and> trace st' = trace st @ [Prompt, Line (''Unexpected error: '' @ eof_msg)]
           \<and> (\<exists>st''. rest_step send json_loads ep k st' = Some st''
                 \<and> prefix (trace st' @ [Prompt]) (trace st''))"
proof -
  let ?st' = "st\<lparr>trace := trace st @ [Prompt, Line (''Unexpected error: '' @ eof_msg)]\<rparr>"
  have "rest_step send json_loads ep k st = Some ?st'"
    using assms by (simp add: rest_step_def)
  moreover have "\<exists>st''. rest_step send json_loads ep k ?st' = Some st''
                   \<and> prefix (trace ?st' @ [Prompt]) (trace st'')"
    by (rule rest_step_prompts) (simp add: assms(1))
  ultimately show ?thesis by simp
qed

lemma rest_eof_loop:
  assumes "lower (user_text st) \<noteq> ''quit''" and "stdin st = []"
  shows "rest_loop send json_loads ep k st = None"
proof (cases "rest_loop send json_loads ep k st")
  case None
  then show ?thesis .
next
  case (Some tr)
  from rest_loop_returns_at_quit [OF this] assms show ?thesis
    by simp
qed

lemma sdk_eof_pass:
  assumes "lower (user_text st) \<noteq> ''quit''" and "stdin st = []"
  shows "\<exists>st'. sdk_step client st = Some st'
           \<and> trace st' = trace st @ [Prompt, Line (''Unexpected error: '' @ eof_msg)]
           \<and> (\<exists>st''. sdk_step client st' = Some st'' \<and> prefix (trace st' @ [Prompt]) (trace st''))"
proof -
  let ?st' = "st\<lparr>trace := trace st @ [Prompt, Line (''Unexpected error: '' @ eof_msg)]\<rparr>"
  have "sdk_step client st = Some ?st'"
    using assms by (simp add: sdk_step_def)
  moreover have "\<exists>st''. sdk_step client ?st' = Some st'' \<and> prefix (trace ?st' @ [Prompt]) (trace st'')"
    by (rule sdk_step_prompts) (simp add: assms(1))
  ultimately show ?thesis by simp
qed

lemma sdk_eof_loop:
  assumes "lower (user_text st) \<noteq> ''quit''" and "stdin st = []"
  shows "sdk_loop client st = None"
proof (cases "sdk_loop client st")
  case None
  then show ?thesis .
next
  case (Some tr)
  from sdk_loop_returns_at_quit [OF this] assms show ?thesis
    by simp
qed

lemma sdk_report_other:
  "(\<forall>m. e \<noteq> InputError m) \<Longrightarrow> (\<forall>m. e \<noteq> AzureError m) \<Longrightarrow>
   sdk_report e = ''Unexpected error: '' @ str_exn e"
  by (cases e) simp_all

text \<open>
  C6: in a pass of the loop (the text last read is not the sentinel) in which validation
  fails, or the client call fails, or another exception is raised (\<open>input\<close> at the end of
  standard input; in sdk-client.py also any exception of the client that is neither
  \<open>InputError\<close> nor \<open>AzureError\<close>), the loop prints the error after a prefix of its kind
  (Input error, API error or Azure service error, Unexpected error), is not left, and its
  next pass starts with the prompt. This is stated of one pass (\<open>rest_step\<close>, \<open>sdk_step\<close>)
  and of the whole loop (\<open>rest_loop\<close>, \<open>sdk_loop\<close>): whatever the loop returns starts with
  what was printed before, then the prompt, the events of the failing pass ending in its
  error line, and the next prompt; the loop does return when the sentinel is among the
  lines still to be read; and at the end of standard input it prints the error and never
  returns. A failure of the configuration loader makes \<open>main\<close> print a configuration
  error and raise it before any prompt; no other exception leaves \<open>main\<close>, which with a
  loaded configuration is the loop run on the input lines and returns normally when the
  loop does.
\<close>

theorem loop_recovers:
  assumes "lower (user_text st) \<noteq> ''quit''"
  shows
    "(stdin st = line # rest \<and> lower line \<noteq> ''quit'' \<and> validate_text line = Inl e \<longrightarrow>
       (\<exists>st'. rest_step send json_loads ep k st = Some st'
          \<and> trace st' = trace st @ [Prompt, Call_validate line, Line (''Input error: '' @ str_exn e)]
          \<and> (\<exists>st''. rest_step send json_loads ep k st' = Some st''
                \<and> prefix (trace st' @ [Prompt]) (trace st'')))
       \<and> (\<forall>tr. rest_loop send json_loads ep k st = Some tr \<longrightarrow>
            prefix (trace st @ [Prompt, Call_validate line,
                                Line (''Input error: '' @ str_exn e), Prompt]) tr)
       \<and> ((\<exists>l\<in>set rest. lower l = ''quit'') \<longrightarrow>
            (\<exists>tr. rest_loop send json_loads ep k st = Some tr)))
     \<and> (stdin st = line # rest \<and> lower line \<noteq> ''quit'' \<and> validate_text line = Inr ()
          \<and> GetLanguage send json_loads ep k line = (evs, Inl e) \<longrightarrow>
       (\<exists>st'. rest_step send json_loads ep k st = Some st'
          \<and> trace st' = trace st @ [Prompt, Call_validate line, Call_client line] @ evs
                          @ [Line (''API error: '' @ str_exn e)]
          \<and> (\<exists>st''. rest_step send json_loads ep k st' = Some st''
                \<and> prefix (trace st' @ [Prompt]) (trace st'')))
       \<and> (\<forall>tr. rest_loop send json_loads ep k st = Some tr \<longrightarrow>
            prefix (trace st @ [Prompt, Call_validate line, Call_client line] @ evs
                    @ [Line (''API error: '' @ str_exn e), Prompt]) tr)
       \<and> ((\<exists>l\<in>set rest. lower l = ''quit'') \<longrightarrow>
            (\<exists>tr. rest_loop send json_loads ep k st = Some tr)))
     \<and> (stdin st = [] \<longrightarrow>
       (\<exists>st'. rest_step send json_loads ep k st = Some st'
          \<and> trace st' = trace st @ [Prompt, Line (''Unexpected error: '' @ eof_msg)]
          \<and> (\<exists>st''. rest_step send json_loads ep k st' = Some st''
                \<and> prefix (trace st' @ [Prompt]) (trace st'')))
       \<and> rest_loop send json_loads ep k st = None)
     \<and> (stdin st = line # rest \<and> lower line \<noteq> ''quit'' \<and> validate line = Inl e \<longrightarrow>
       (\<exists>st'. sdk_step client st = Some st'
          \<and> trace st' = trace st @ [Prompt, Call_validate line, Line (''Input error: '' @ str_exn e)]
          \<and> (\<exists>st''. sdk_step client st' = Some st'' \<and> prefix (trace st' @ [Prompt]) (trace st'')))
       \<and> (\<forall>tr. sdk_loop client st = Some tr \<longrightarrow>
            prefix (trace st @ [Prompt, Call_validate line,
                                Line (''Input error: '' @ str_exn e), Prompt]) tr)
       \<and> ((\<exists>l\<in>set rest. lower l = ''quit'') \<longrightarrow> (\<exists>tr. sdk_loop client st = Some tr)))
     \<and> (stdin st = line # rest \<and> lower line \<noteq> ''quit'' \<and> validate line = Inr ()
          \<and> detect_language client line = Inl (AzureError m) \<longrightarrow>
       (\<exists>st'. sdk_step client st = Some st'
          \<and> trace st' = trace st @ [Prompt, Call_validate line, Call_client line,
                                    Line (''Azure service error: '' @ m)]
          \<and> (\<exists>st''. sdk_step client st' = Some st'' \<and> prefix (trace st' @ [Prompt]) (trace st'')))
       \<and> (\<forall>tr. sdk_loop client st = Some tr \<longrightarrow>
            prefix (trace st @ [Prompt, Call_validate line, Call_client line,
                                Line (''Azure service error: '' @ m), Prompt]) tr)
       \<and> ((\<exists>l\<in>set rest. lower l = ''quit'') \<longrightarrow> (\<exists>tr. sdk_loop client st = Some tr)))
     \<and> (stdin st = line # rest \<and> lower line \<noteq> ''quit'' \<and> validate line = Inr ()
          \<and> detect_language client line = Inl e
          \<and> (\<forall>m. e \<noteq> InputError m) \<and> (\<forall>m. e \<noteq> AzureError m) \<longrightarrow>
       (\<exists>st'. sdk_step client st = Some st'
          \<and> trace st' = trace st @ [Prompt, Call_validate line, Call_client line,
                                    Line (''Unexpected error: '' @ str_exn e)]
          \<and> (\<exists>st''. sdk_step client st' = Some st'' \<and> prefix (trace st' @ [Prompt]) (trace st'')))
       \<and> (\<forall>tr. sdk_loop client st = Some tr \<longrightarrow>
            prefix (trace st @ [Prompt, Call_validate line, Call_client line,
                                Line (''Unexpected error: '' @ str_exn e), Prompt]) tr)
       \<and> ((\<exists>l\<in>set rest. lower l = ''quit'') \<longrightarrow> (\<exists>tr. sdk_loop client st = Some tr)))
     \<and> (stdin st = [] \<longrightarrow>
       (\<exists>st'. sdk_step client st = Some st'
          \<and> trace st' = trace st @ [Prompt, Line (''Unexpected error: '' @ eof_msg)]
          \<and> (\<exists>st''. sdk_step client st' = Some st'' \<and> prefix (trace st' @ [Prompt]) (trace st'')))
       \<and> sdk_loop client st = None)
     \<and> (validate_configuration env = Inl e \<longrightarrow>
          rest_main send json_loads env lines
            = Some ([Line (''Configuration error: '' @ str_exn e)], Inl e))
     \<and> (from_env env = Inl e \<longrightarrow>
          sdk_main detector env lines = Some ([Line (''Configuration error: '' @ str_exn e)], Inl e))
     \<and> (rest_main send json_loads env lines = Some (tr, Inl e) \<longrightarrow> validate_configuration env = Inl e)
     \<and> (sdk_main detector env lines = Some (tr, Inl e) \<longrightarrow> from_env env = Inl e)
     \<and> (validate_configuration env = Inr (ep, k) \<longrightarrow>
          rest_main send json_loads env lines
            = map_option (\<lambda>tr. (tr, Inr ()))
                (rest_loop send json_loads ep k \<lparr>user_text = [], stdin = lines, trace = []\<rparr>))
     \<and> (from_env env = Inr config \<longrightarrow>
          sdk_main detector env lines
            = map_option (\<lambda>tr. (tr, Inr ()))
                (sdk_loop (detector config) \<lparr>user_text = [], stdin = lines, trace = []\<rparr>))"
proof -
  note run = assms
  have a: "\<exists>st'. rest_step send json_loads ep k st = Some st'
          \<and> trace st' = trace st @ [Prompt, Call_validate line, Line (''Input error: '' @ str_exn e)]
          \<and> (\<exists>st''. rest_step send json_loads ep k st' = Some st''
                \<and> prefix (trace st' @ [Prompt]) (trace st''))"
    and a2: "\<And>tr. rest_loop send json_loads ep k st = Some tr \<Longrightarrow>
            prefix (trace st @ [Prompt, Call_validate line,
                                Line (''Input error: '' @ str_exn e), Prompt]) tr"
    and a3: "\<exists>l\<in>set rest. lower l = ''quit'' \<Longrightarrow> \<exists>tr. rest_loop send json_loads ep k st = Some tr"
    if h: "stdin st = line # rest" "lower line \<noteq> ''quit''" "validate_text line = Inl e"
  proof -
    have "rest_report e = ''Input error: '' @ str_exn e"
      by (subst validate_text_error [OF h(3)]) simp
    then have it: "rest_iteration send json_loads ep k line
               = [Call_validate line, Line (''Input error: '' @ str_exn e)]"
      using h by (simp add: rest_iteration_def)
    from rest_pass [OF run h(1) h(2) it]
    show "\<exists>st'. rest_step send json_loads ep k st = Some st'
          \<and> trace st' = trace st @ [Prompt, Call_validate line, Line (''Input error: '' @ str_exn e)]
          \<and> (\<exists>st''. rest_step send json_loads ep k st' = Some st''
                \<and> prefix (trace st' @ [Prompt]) (trace st''))"
      by simp
    show "prefix (trace st @ [Prompt, Call_validate line,
                                Line (''Input error: '' @ str_exn e), Prompt]) tr"
      if "rest_loop send json_loads ep k st = Some tr" for tr
      using rest_loop_pass(1) [OF run h(1) h(2) it that] by simp
    show "\<exists>tr. rest_loop send json_loads ep k st = Some tr"
      if "\<exists>l\<in>set rest. lower l = ''quit''"
      using rest_loop_pass(2) [OF run h(1) h(2) it that] .
  qed
  have b: "\<exists>st'. rest_step send json_loads ep k st = Some st'
          \<and> trace st' = trace st @ [Prompt, Call_validate line, Call_client line] @ evs
                          @ [Line (''API error: '' @ str_exn e)]
          \<and> (\<exists>st''. rest_step send json_loads ep k st' = Some st''
                \<and> prefix (trace st' @ [Prompt]) (trace st''))"
    and b2: "\<And>tr. rest_loop send json_loads ep k st = Some tr \<Longrightarrow>
            prefix (trace st @ [Prompt, Call_validate line, Call_client line] @ evs
                    @ [Line (''API error: '' @ str_exn e), Prompt]) tr"
    and b3: "\<exists>l\<in>set rest. lower l = ''quit'' \<Longrightarrow> \<exists>tr. rest_loop send json_loads ep k st = Some tr"
    if h: "stdin st = line # rest" "lower line \<noteq> ''quit''" "validate_text line = Inr ()"
      "GetLanguage send json_loads ep k line = (evs, Inl e)"
  proof -
    have "rest_report e = ''API error: '' @ str_exn e"
      by (subst GetLanguage_error [OF h(4)]) simp
    then have it: "rest_iteration send json_loads ep k line
               = [Call_validate line, Call_client line] @ evs @ [Line (''API error: '' @ str_exn e)]"
      using h by (simp add: rest_iteration_def)
    from rest_pass [OF run h(1) h(2) it]
    show "\<exists>st'. rest_step send json_loads ep k st = Some st'
          \<and> trace st' = trace st @ [Prompt, Call_validate line, Call_client line] @ evs
                          @ [Line (''API error: '' @ str_exn e)]
          \<and> (\<exists>st''. rest_step send json_loads ep k st' = Some st''
                \<and> prefix (trace st' @ [Prompt]) (trace st''))"
      by simp
    show "prefix (trace st @ [Prompt, Call_validate line, Call_client line] @ evs
                    @ [Line (''API error: '' @ str_exn e), Prompt]) tr"
      if "rest_loop send json_loads ep k st = Some tr" for tr
      using rest_loop_pass(1) [OF run h(1) h(2) it that] by simp
    show "\<exists>tr. rest_loop send json_loads ep k st = Some tr"
      if "\<exists>l\<in>set rest. lower l = ''quit''"
      using rest_loop_pass(2) [OF run h(1) h(2) it that] .
  qed
  have c: "\<exists>st'. sdk_step client st = Some st'
          \<and> trace st' = trace st @ [Prompt, Call_validate line, Line (''Input error: '' @ str_exn e)]
          \<and> (\<exists>st''. sdk_step client st' = Some st'' \<and> prefix (trace st' @ [Prompt]) (trace st''))"
    and c2: "\<And>tr. sdk_loop client st = Some tr \<Longrightarrow>
            prefix (trace st @ [Prompt, Call_validate line,
                                Line (''Input error: '' @ str_exn e), Prompt]) tr"
    and c3: "\<exists>l\<in>set rest. lower l = ''quit'' \<Longrightarrow> \<exists>tr. sdk_loop client st = Some tr"
    if h: "stdin st = line # rest" "lower line \<noteq> ''quit''" "validate line = Inl e"
  proof -
    have "sdk_report e = ''Input error: '' @ str_exn e"
      by (subst validate_error [OF h(3)]) simp
    then have it: "sdk_iteration client line
                   = [Call_validate line, Line (''Input error: '' @ str_exn e)]"
      using h by (simp add: sdk_iteration_def)
    from sdk_pass [OF run h(1) h(2) it]
    show "\<exists>st'. sdk_step client st = Some st'
          \<and> trace st' = trace st @ [Prompt, Call_validate line, Line (''Input error: '' @ str_exn e)]
          \<and> (\<exists>st''. sdk_step client st' = Some st'' \<and> prefix (trace st' @ [Prompt]) (trace st''))"
      by simp
    show "prefix (trace st @ [Prompt, Call_validate line,
                                Line (''Input error: '' @ str_exn e), Prompt]) tr"
      if "sdk_loop client st = Some tr" for tr
      using sdk_loop_pass(1) [OF run h(1) h(2) it that] by simp
    show "\<exists>tr. sdk_loop client st = Some tr"
      if "\<exists>l\<in>set rest. lower l = ''quit''"
      using sdk_loop_pass(2) [OF run h(1) h(2) it that] .
  qed
  have d: "\<exists>st'. sdk_step client st = Some st'
          \<and> trace st' = trace st @ [Prompt, Call_validate line, Call_client line,
                                    Line (''Azure service error: '' @ m)]
          \<and> (\<exists>st''. sdk_step client st' = Some st'' \<and> prefix (trace st' @ [Prompt]) (trace st''))"
    and d2: "\<And>tr. sdk_loop client st = Some tr \<Longrightarrow>
            prefix (trace st @ [Prompt, Call_validate line, Call_client line,
                                Line (''Azure service error: '' @ m), Prompt]) tr"
    and d3: "\<exists>l\<in>set rest. lower l = ''quit'' \<Longrightarrow> \<exists>tr. sdk_loop client st = Some tr"
    if h: "stdin st = line # rest" "lower line \<noteq> ''quit''" "validate line = Inr ()"
      "detect_language client line = Inl (AzureError m)"
  proof -
    have it: "sdk_iteration client line
          = [Call_validate line, Call_client line, Line (''Azure service error: '' @ m)]"
      using h by (simp add: sdk_iteration_def)
    from sdk_pass [OF run h(1) h(2) it]
    show "\<exists>st'. sdk_step client st = Some st'
          \<and> trace st' = trace st @ [Prompt, Call_validate line, Call_client line,
                                    Line (''Azure service error: '' @ m)]
          \<and> (\<exists>st''. sdk_step client st' = Some st'' \<and> prefix (trace st' @ [Prompt]) (trace st''))"
      by simp
    show "prefix (trace st @ [Prompt, Call_validate line, Call_client line,
                                Line (''Azure service error: '' @ m), Prompt]) tr"
      if "sdk_loop client st = Some tr" for tr
      using sdk_loop_pass(1) [OF run h(1) h(2) it that] by simp
    show "\<exists>tr. sdk_loop client st = Some tr"
      if "\<exists>l\<in>set rest. lower l = ''quit''"
      using sdk_loop_pass(2) [OF run h(1) h(2) it that] .
  qed
  have f: "\<exists>st'. sdk_step client st = Some st'
          \<and> trace st' = trace st @ [Prompt, Call_validate line, Call_client line,
                                    Line (''Unexpected error: '' @ str_exn e)]
          \<and> (\<exists>st''. sdk_step client st' = Some st'' \<and> prefix (trace st' @ [Prompt]) (trace st''))"
    and f2: "\<And>tr. sdk_loop client st = Some tr \<Longrightarrow>
            prefix (trace st @ [Prompt, Call_validate line, Call_client line,
                                Line (''Unexpected error: '' @ str_exn e), Prompt]) tr"
    and f3: "\<exists>l\<in>set rest. lower l = ''quit'' \<Longrightarrow> \<exists>tr. sdk_loop client st = Some tr"
    if h: "stdin st = line # rest" "lower line \<noteq> ''quit''" "validate line = Inr ()"
      "detect_language client line = Inl e" "\<forall>m. e \<noteq> InputError m" "\<forall>m. e \<noteq> AzureError m"
  proof -
    have it: "sdk_iteration client line
          = [Call_validate line, Call_client line, Line (''Unexpected error: '' @ str_exn e)]"
      using h(2-4) sdk_report_other [OF h(5) h(6)] by (simp add: sdk_iteration_def)
    from sdk_pass [OF run h(1) h(2) it]
    show "\<exists>st'. sdk_step client st = Some st'
          \<and> trace st' = trace st @ [Prompt, Call_validate line, Call_client line,
                                    Line (''Unexpected error: '' @ str_exn e)]
          \<and> (\<exists>st''. sdk_step client st' = Some st'' \<and> prefix (trace st' @ [Prompt]) (trace st''))"
      by simp
    show "prefix (trace st @ [Prompt, Call_validate line, Call_client line,
                                Line (''Unexpected error: '' @ str_exn e), Prompt]) tr"
      if "sdk_loop client st = Some tr" for tr
      using sdk_loop_pass(1) [OF run h(1) h(2) it that] by simp
    show "\<exists>tr. sdk_loop client st = Some tr"
      if "\<exists>l\<in>set rest. lower l = ''quit''"
      using sdk_loop_pass(2) [OF run h(1) h(2) it that] .
  qed
  have g: "rest_main send json_loads env lines
            = Some ([Line (''Configuration error: '' @ str_exn e)], Inl e)"
    if "validate_configuration env = Inl e"
    using that by (simp add: rest_main_def)
  have i: "sdk_main detector env lines = Some ([Line (''Configuration error: '' @ str_exn e)], Inl e)"
    if "from_env env = Inl e"
    using that by (simp add: sdk_main_def)
  show ?thesis
    by (intro conjI impI allI; (elim conjE)?;
        (rule a a2 a3 b b2 b3 c c2 c3 d d2 d3 f f2 f3 g i
           rest_eof_pass [OF run] sdk_eof_pass [OF run] rest_eof_loop [OF run] sdk_eof_loop [OF run]
           rest_main_fatal sdk_main_fatal rest_main_runs_loop sdk_main_runs_loop; assumption))
qed

lemma lower_blank: "lower '' '' \<noteq> ''quit''"
  by (simp add: lower_def)

theorem loop_recovers_witness:
  "(\<exists>st'. rest_step (\<lambda>r. Raises (HTTPException ''down'')) (\<lambda>s. Inl (JSONDecodeError ''none''))
             ''https://e'' ''k'' \<lparr>user_text = [], stdin = ['' '', ''quit''], trace = []\<rparr> = Some st'
      \<and> trace st' = [Prompt, Call_validate '' '', Line ''Input error: Text cannot be empty''])
   \<and> (\<exists>tr. rest_loop (\<lambda>r. Raises (HTTPException ''down'')) (\<lambda>s. Inl (JSONDecodeError ''none''))
             ''https://e'' ''k'' \<lparr>user_text = [], stdin = ['' '', ''quit''], trace = []\<rparr> = Some tr
      \<and> prefix [Prompt, Call_validate '' '', Line ''Input error: Text cannot be empty'', Prompt] tr)
   \<and> (\<exists>tr. rest_loop (\<lambda>r. Raises (HTTPException ''down'')) (\<lambda>s. Inl (JSONDecodeError ''none''))
             ''https://e'' ''k'' \<lparr>user_text = [], stdin = [''Hello'', ''quit''], trace = []\<rparr> = Some tr
      \<and> prefix [Prompt, Call_validate ''Hello'', Call_client ''Hello'', Echo (jsonBody ''Hello''),
                 Line ''API error: HTTP error occurred: down'', Prompt] tr)
   \<and> rest_loop (\<lambda>r. Raises (HTTPException ''down'')) (\<lambda>s. Inl (JSONDecodeError ''none''))
        ''https://e'' ''k'' \<lparr>user_text = [], stdin = [], trace = []\<rparr> = None
   \<and> (\<exists>tr. sdk_loop (\<lambda>d. Inl (AzureError ''boom''))
             \<lparr>user_text = [], stdin = ['' '', ''quit''], trace = []\<rparr> = Some tr
      \<and> prefix [Prompt, Call_validate '' '', Line ''Input error: Text cannot be empty'', Prompt] tr)
   \<and> (\<exists>tr. sdk_loop (\<lambda>d. Inl (AzureError ''boom''))
             \<lparr>user_text = [], stdin = [''Hello'', ''quit''], trace = []\<rparr> = Some tr
      \<and> prefix [Prompt, Call_validate ''Hello'', Call_client ''Hello'',
                 Line ''Azure service error: Failed to detect language: boom'', Prompt] tr)
   \<and> (\<exists>tr. sdk_loop (\<lambda>d. Inr [DocumentError ''no attribute''])
             \<lparr>user_text = [], stdin = [''Hello'', ''quit''], trace = []\<rparr> = Some tr
      \<and> prefix [Prompt, Call_validate ''Hello'', Call_client ''Hello'',
                 Line ''Unexpected error: no attribute'', Prompt] tr)
   \<and> sdk_loop (\<lambda>d. Inl (AzureError ''boom'')) \<lparr>user_text = [], stdin = [], trace = []\<rparr> = None
   \<and> rest_main (\<lambda>r. Raises (HTTPException ''down'')) (\<lambda>s. Inl (JSONDecodeError ''none''))
        Map.empty [''Hello'']
      = Some ([Line (''Configuration error: '' @ missing_msg)], Inl (ConfigurationError missing_msg))
   \<and> sdk_main (\<lambda>c d. Inl (AzureError ''boom'')) Map.empty [''Hello'']
      = Some ([Line (''Configuration error: '' @ missing_msg)], Inl (ConfigurationError missing_msg))
   \<and> validate_configuration Map.empty = Inl (ConfigurationError missing_msg)
   \<and> from_env Map.empty = Inl (ConfigurationError missing_msg)"
proof -
  let ?send = "\<lambda>r::http_request. Raises (HTTPException ''down'')"
  let ?loads = "\<lambda>s::string. (Inl (JSONDecodeError ''none'') :: exn + json)"
  let ?azure = "\<lambda>d::string list. (Inl (AzureError ''boom'') :: exn + sdk_result list)"
  let ?doc = "\<lambda>d::string list. (Inr [DocumentError ''no attribute''] :: exn + sdk_result list)"
  let ?a = "\<lparr>user_text = [], stdin = ['' '', ''quit''], trace = []\<rparr>"
  let ?b = "\<lparr>user_text = [], stdin = [''Hello'', ''quit''], trace = []\<rparr>"
  let ?c = "\<lparr>user_text = [], stdin = [], trace = []\<rparr>"
  let ?ce = "ConfigurationError missing_msg"
  have ra: "lower (user_text ?a) \<noteq> ''quit''" and rb: "lower (user_text ?b) \<noteq> ''quit''"
    and rc: "lower (user_text ?c) \<noteq> ''quit''"
    by (simp_all add: lower_empty)
  have qt: "\<exists>l\<in>set [''quit'']. lower l = ''quit''"
    by (simp add: lower_quit)
  have g: "GetLanguage ?send ?loads ''https://e'' ''k'' ''Hello''
           = ([Echo (jsonBody ''Hello'')], Inl (APIError ''HTTP error occurred: down''))"
    by (simp add: GetLanguage_def try_block_def)
  have da: "detect_language ?azure ''Hello'' = Inl (AzureError ''Failed to detect language: boom'')"
    by (simp add: detect_language_def)
  have dd: "detect_language ?doc ''Hello'' = Inl (AttributeError ''no attribute'')"
    by (simp add: detect_language_def item0_def)
  have va: "validate_configuration Map.empty = Inl ?ce"
    by (simp add: validate_configuration_cases)
  have fa: "from_env Map.empty = Inl ?ce"
    by (simp add: from_env_cases)
  have p1: "stdin ?a = '' '' # [''quit''] \<and> lower '' '' \<noteq> ''quit''
            \<and> validate_text '' '' = Inl (InputError ''Text cannot be empty'')"
    by (simp add: validate_text_blank lower_blank)
  note t1 = loop_recovers [OF ra, where send = ?send and json_loads = ?loads
        and ep = "''https://e''" and k = "''k''", THEN conjunct1, THEN mp, OF p1]
  have 1: "\<exists>st'. rest_step ?send ?loads ''https://e'' ''k'' ?a = Some st'
      \<and> trace st' = [Prompt, Call_validate '' '', Line ''Input error: Text cannot be empty'']"
    using t1 [THEN conjunct1] by auto
  obtain tr1 where e1: "rest_loop ?send ?loads ''https://e'' ''k'' ?a = Some tr1"
    using t1 [THEN conjunct2, THEN conjunct2, THEN mp, OF qt] by blast
  have "prefix [Prompt, Call_validate '' '', Line ''Input error: Text cannot be empty'', Prompt] tr1"
    using t1 [THEN conjunct2, THEN conjunct1, THEN spec, THEN mp, OF e1] by simp
  with e1 have 2: "\<exists>tr. rest_loop ?send ?loads ''https://e'' ''k'' ?a = Some tr
      \<and> prefix [Prompt, Call_validate '' '', Line ''Input error: Text cannot be empty'', Prompt] tr"
    by blast
  have p3: "stdin ?b = ''Hello'' # [''quit''] \<and> lower ''Hello'' \<noteq> ''quit''
            \<and> validate_text ''Hello'' = Inr ()
            \<and> GetLanguage ?send ?loads ''https://e'' ''k'' ''Hello''
                = ([Echo (jsonBody ''Hello'')], Inl (APIError ''HTTP error occurred: down''))"
    by (simp add: validate_text_Hello lower_Hello g)
  note t3 = loop_recovers [OF rb, THEN conjunct2, THEN conjunct1, THEN mp, OF p3]
  obtain tr3 where e3: "rest_loop ?send ?loads ''https://e'' ''k'' ?b = Some tr3"
    using t3 [THEN conjunct2, THEN conjunct2, THEN mp, OF qt] by blast
  have "prefix [Prompt, Call_validate ''Hello'', Call_client ''Hello'', Echo (jsonBody ''Hello''),
                 Line ''API error: HTTP error occurred: down'', Prompt] tr3"
    using t3 [THEN conjunct2, THEN conjunct1, THEN spec, THEN mp, OF e3] by simp
  with e3 have 3: "\<exists>tr. rest_loop ?send ?loads ''https://e'' ''k'' ?b = Some tr
      \<and> prefix [Prompt, Call_validate ''Hello'', Call_client ''Hello'', Echo (jsonBody ''Hello''),
                 Line ''API error: HTTP error occurred: down'', Prompt] tr"
    by blast
  have p4: "stdin ?c = []"
    by simp
  have 4: "rest_loop ?send ?loads ''https://e'' ''k'' ?c = None"
    using loop_recovers [OF rc, where send = ?send and json_loads = ?loads
        and ep = "''https://e''" and k = "''k''", THEN conjunct2, THEN conjunct2, THEN conjunct1,
        THEN mp, OF p4, THEN conjunct2] .
  have p5: "stdin ?a = '' '' # [''quit''] \<and> lower '' '' \<noteq> ''quit''
            \<and> validate '' '' = Inl (InputError ''Text cannot be empty'')"
    by (simp add: validate_blank lower_blank)
  note t5 = loop_recovers [OF ra, where client = ?azure, THEN conjunct2, THEN conjunct2,
        THEN conjunct2, THEN conjunct1, THEN mp, OF p5]
  obtain tr5 where e5: "sdk_loop ?azure ?a = Some tr5"
    using t5 [THEN conjunct2, THEN conjunct2, THEN mp, OF qt] by blast
  have "prefix [Prompt, Call_validate '' '', Line ''Input error: Text cannot be empty'', Prompt] tr5"
    using t5 [THEN conjunct2, THEN conjunct1, THEN spec, THEN mp, OF e5] by simp
  with e5 have 5: "\<exists>tr. sdk_loop ?azure ?a = Some tr
      \<and> prefix [Prompt, Call_validate '' '', Line ''Input error: Text cannot be empty'', Prompt] tr"
    by blast
  have p6: "stdin ?b = ''Hello'' # [''quit''] \<and> lower ''Hello'' \<noteq> ''quit''
            \<and> validate ''Hello'' = Inr ()
            \<and> detect_language ?azure ''Hello'' = Inl (AzureError ''Failed to detect language: boom'')"
    by (simp add: validate_Hello lower_Hello da)
  note t6 = loop_recovers [OF rb, THEN conjunct2, THEN conjunct2, THEN conjunct2, THEN conjunct2,
        THEN conjunct1, THEN mp, OF p6]
  obtain tr6 where e6: "sdk_loop ?azure ?b = Some tr6"
    using t6 [THEN conjunct2, THEN conjunct2, THEN mp, OF qt] by blast
  have "prefix [Prompt, Call_validate ''Hello'', Call_client ''Hello'',
                 Line ''Azure service error: Failed to detect language: boom'', Prompt] tr6"
    using t6 [THEN conjunct2, THEN conjunct1, THEN spec, THEN mp, OF e6] by simp
  with e6 have 6: "\<exists>tr. sdk_loop ?azure ?b = Some tr
      \<and> prefix [Prompt, Call_validate ''Hello'', Call_client ''Hello'',
                 Line ''Azure service error: Failed to detect language: boom'', Prompt] tr"
    by blast
  have p7: "stdin ?b = ''Hello'' # [''quit''] \<and> lower ''Hello'' \<noteq> ''quit''
            \<and> validate ''Hello'' = Inr ()
            \<and> detect_language ?doc ''Hello'' = Inl (AttributeError ''no attribute'')
            \<and> (\<forall>m. AttributeError ''no attribute'' \<noteq> InputError m)
            \<and> (\<forall>m. AttributeError ''no attribute'' \<noteq> AzureError m)"
    by (simp add: validate_Hello lower_Hello dd)
  note t7 = loop_recovers [OF rb, THEN conjunct2, THEN conjunct2, THEN conjunct2, THEN conjunct2,
        THEN conjunct2, THEN conjunct1, THEN mp, OF p7]
  obtain tr7 where e7: "sdk_loop ?doc ?b = Some tr7"
    using t7 [THEN conjunct2, THEN conjunct2, THEN mp, OF qt] by blast
  have "prefix [Prompt, Call_validate ''Hello'', Call_client ''Hello'',
                 Line ''Unexpected error: no attribute'', Prompt] tr7"
    using t7 [THEN conjunct2, THEN conjunct1, THEN spec, THEN mp, OF e7] by simp
  with e7 have 7: "\<exists>tr. sdk_loop ?doc ?b = Some tr
      \<and> prefix [Prompt, Call_validate ''Hello'', Call_client ''Hello'',
                 Line ''Unexpected error: no attribute'', Prompt] tr"
    by blast
  have 8: "sdk_loop ?azure ?c = None"
    using loop_recovers [OF rc, where client = ?azure, THEN conjunct2, THEN conjunct2,
        THEN conjunct2, THEN conjunct2, THEN conjunct2, THEN conjunct2, THEN conjunct1,
        THEN mp, OF p4, THEN conjunct2] .
  have 9: "rest_main ?send ?loads Map.empty [''Hello'']
      = Some ([Line (''Configuration error: '' @ missing_msg)], Inl ?ce)"
    using loop_recovers [OF rc, where send = ?send and json_loads = ?loads and lines = "[''Hello'']",
        THEN conjunct2, THEN conjunct2, THEN conjunct2, THEN conjunct2, THEN conjunct2,
        THEN conjunct2, THEN conjunct2, THEN conjunct1, THEN mp, OF va]
    by simp
  have 10: "sdk_main (\<lambda>c. ?azure) Map.empty [''Hello'']
      = Some ([Line (''Configuration error: '' @ missing_msg)], Inl ?ce)"
    using loop_recovers [OF rc, where detector = "\<lambda>c. ?azure" and lines = "[''Hello'']",
        THEN conjunct2, THEN conjunct2, THEN conjunct2, THEN conjunct2, THEN conjunct2,
        THEN conjunct2, THEN conjunct2, THEN conjunct2, THEN conjunct1, THEN mp, OF fa]
    by simp
  have 11: "validate_configuration Map.empty = Inl ?ce"
    using loop_recovers [OF rc, THEN conjunct2, THEN conjunct2, THEN conjunct2, THEN conjunct2,
        THEN conjunct2, THEN conjunct2, THEN conjunct2, THEN conjunct2, THEN conjunct2,
        THEN conjunct1, THEN mp, OF 9]
    by simp
  have 12: "from_env Map.empty = Inl ?ce"
    using loop_recovers [OF rc, THEN conjunct2, THEN conjunct2, THEN conjunct2, THEN conjunct2,
        THEN conjunct2, THEN conjunct2, THEN conjunct2, THEN conjunct2, THEN conjunct2,
        THEN conjunct2, THEN conjunct1, THEN mp, OF 10]
    by simp
  from 1 2 3 4 5 6 7 8 9 10 11 12 show ?thesis
    by (intro conjI)
qed

section \<open>An empty result list from the SDK\<close>

lemma detect_language_empty:
  "client [line] = Inr [] \<Longrightarrow>
   detect_language client line = Inl (IndexError ''list index out of range'')"
  by (simp add: detect_language_def item0_def)

text \<open>
  C10: in sdk-client.py, when the service call returns an empty list, \<open>detect_language\<close>
  raises \<open>IndexError\<close> (list index out of range) from indexing the first element, not
  \<open>AzureError\<close>. In the loop the generic handler catches it: the pass prints
  Unexpected error: list index out of range, the loop is not left and its next pass starts
  with the prompt; when the next line is the sentinel the loop then ends normally.
\<close>

theorem empty_results_index_error:
  assumes "client [line] = Inr []"
  shows "detect_language client line = Inl (IndexError ''list index out of range'')
    \<and> (\<forall>m. detect_language client line \<noteq> Inl (AzureError m))
    \<and> (lower (user_text st) \<noteq> ''quit'' \<and> stdin st = line # rest \<and> lower line \<noteq> ''quit''
         \<and> validate line = Inr () \<longrightarrow>
        (\<exists>st'. sdk_step client st = Some st'
           \<and> trace st' = trace st @ [Prompt, Call_validate line, Call_client line,
                                     Line ''Unexpected error: list index out of range'']
           \<and> (\<exists>st''. sdk_step client st' = Some st'' \<and> prefix (trace st' @ [Prompt]) (trace st''))))
    \<and> (lower (user_text st) \<noteq> ''quit'' \<and> stdin st = line # q # others \<and> lower line \<noteq> ''quit''
         \<and> validate line = Inr () \<and> lower q = ''quit'' \<longrightarrow>
        sdk_loop client st
          = Some (trace st @ [Prompt, Call_validate line, Call_client line,
                              Line ''Unexpected error: list index out of range'', Prompt]))"
proof -
  note d = detect_language_empty [of client line, OF assms]
  have it: "sdk_iteration client line
            = [Call_validate line, Call_client line,
               Line ''Unexpected error: list index out of range'']"
    if "lower line \<noteq> ''quit''" "validate line = Inr ()"
    using that d by (simp add: sdk_iteration_def)
  have a: "\<exists>st'. sdk_step client st = Some st'
           \<and> trace st' = trace st @ [Prompt, Call_validate line, Call_client line,
                                     Line ''Unexpected error: list index out of range'']
           \<and> (\<exists>st''. sdk_step client st' = Some st'' \<and> prefix (trace st' @ [Prompt]) (trace st''))"
    if h: "lower (user_text st) \<noteq> ''quit''" "stdin st = line # rest" "lower line \<noteq> ''quit''"
      "validate line = Inr ()"
    using sdk_pass [OF h(1) h(2) h(3) it [OF h(3) h(4)]] by simp
  have b: "sdk_loop client st
          = Some (trace st @ [Prompt, Call_validate line, Call_client line,
                              Line ''Unexpected error: list index out of range'', Prompt])"
    if h: "lower (user_text st) \<noteq> ''quit''" "stdin st = line # q # others" "lower line \<noteq> ''quit''"
      "validate line = Inr ()" "lower q = ''quit''"
  proof -
    let ?t1 = "trace st @ [Prompt, Call_validate line, Call_client line,
                           Line ''Unexpected error: list index out of range'']"
    let ?s1 = "\<lparr>user_text = line, stdin = q # others, trace = ?t1\<rparr>"
    let ?s2 = "\<lparr>user_text = q, stdin = others, trace = ?t1 @ [Prompt]\<rparr>"
    have 1: "sdk_step client st = Some ?s1"
      using sdk_step_line [OF h(1) h(2)] it [OF h(3) h(4)] by simp
    have 2: "sdk_step client ?s1 = Some ?s2"
      using sdk_step_line [of ?s1 q others client] h(3) h(5) by (simp add: sdk_iteration_def)
    have 3: "sdk_step client ?s2 = None"
      by (rule sdk_step_quit) (simp add: h(5))
    show ?thesis
      using sdk_loop_next [OF 1] sdk_loop_next [OF 2] sdk_loop_exit [OF 3] by simp
  qed
  show ?thesis
    by (intro conjI impI allI; (elim conjE)?; (rule d a b; assumption)?) (simp add: d)
qed

theorem empty_results_index_error_witness:
  "detect_language (\<lambda>d. Inr []) ''Hello'' = Inl (IndexError ''list index out of range'')
   \<and> (\<exists>st'. sdk_step (\<lambda>d. Inr []) \<lparr>user_text = [], stdin = [''Hello'', ''QUIT''], trace = []\<rparr>
               = Some st'
        \<and> trace st' = [Prompt, Call_validate ''Hello'', Call_client ''Hello'',
                        Line ''Unexpected error: list index out of range''])
   \<and> sdk_loop (\<lambda>d. Inr []) \<lparr>user_text = [], stdin = [''Hello'', ''QUIT''], trace = []\<rparr>
       = Some [Prompt, Call_validate ''Hello'', Call_client ''Hello'',
               Line ''Unexpected error: list index out of range'', Prompt]"
proof -
  let ?client = "\<lambda>d::string list. (Inr [] :: exn + sdk_result list)"
  let ?st = "\<lparr>user_text = [], stdin = [''Hello'', ''QUIT''], trace = []\<rparr>"
  have c: "?client [''Hello''] = Inr []"
    by simp
  have p: "lower (user_text ?st) \<noteq> ''quit'' \<and> stdin ?st = ''Hello'' # [''QUIT'']
           \<and> lower ''Hello'' \<noteq> ''quit'' \<and> validate ''Hello'' = Inr ()"
    by (simp add: lower_empty lower_Hello validate_Hello)
  have q: "lower (user_text ?st) \<noteq> ''quit'' \<and> stdin ?st = ''Hello'' # ''QUIT'' # []
           \<and> lower ''Hello'' \<noteq> ''quit'' \<and> validate ''Hello'' = Inr () \<and> lower ''QUIT'' = ''quit''"
    by (simp add: lower_empty lower_Hello validate_Hello lower_QUIT)
  have 1: "detect_language ?client ''Hello'' = Inl (IndexError ''list index out of range'')"
    using empty_results_index_error [where client = ?client and line = "''Hello''", OF c, THEN conjunct1] .
  have 2: "\<exists>st'. sdk_step ?client ?st = Some st'
        \<and> trace st' = [Prompt, Call_validate ''Hello'', Call_client ''Hello'',
                        Line ''Unexpected error: list index out of range'']"
    using empty_results_index_error [where client = ?client and line = "''Hello''", OF c, THEN conjunct2, THEN conjunct2, THEN conjunct1,
        THEN mp, OF p]
    by auto
  have 3: "sdk_loop ?client ?st
       = Some [Prompt, Call_validate ''Hello'', Call_client ''Hello'',
               Line ''Unexpected error: list index out of range'', Prompt]"
    using empty_results_index_error [where client = ?client and line = "''Hello''", OF c, THEN conjunct2, THEN conjunct2, THEN conjunct2,
        THEN mp, OF q]
    by simp
  from 1 2 3 show ?thesis
    by (intro conjI)
qed

section \<open>The language client over HTTP\<close>

lemma GetLanguage_not_200:
  assumes "send (request ep k text) = Response status (Inr data)" and "status \<noteq> 200"
  shows "GetLanguage send json_loads ep k text
         = ([Echo (jsonBody text)],
            Inl (APIError (''Unexpected error during API call: API returned status ''
                           @ str_int status @ '': '' @ data)))"
  using assms by (simp add: GetLanguage_def try_block_def)

lemma GetLanguage_undecodable:
  assumes "send (request ep k text) = Response status (Inl e)"
  shows "GetLanguage send json_loads ep k text = ([Echo (jsonBody text)], Inl (wrap e))"
  using assms by (simp add: GetLanguage_def try_block_def)

lemma GetLanguage_200:
  assumes "send (request ep k text) = Response 200 (Inr data)"
    and "json_loads data = Inr results"
    and "subscript results ''documents'' = Inr docs"
    and "iterate docs = Inr ds"
  shows "GetLanguage send json_loads ep k text
         = ([Echo (jsonBody text), Echo results] @ fst (print_languages ds),
            case snd (print_languages ds) of Inl e \<Rightarrow> Inl (wrap e) | Inr u \<Rightarrow> Inr None)"
  using assms by (simp add: GetLanguage_def try_block_def split: sum.splits)

lemma print_languages_all:
  "map detected_name ds = map Inr names \<Longrightarrow> print_languages ds = (map Language names, Inr ())"
proof (induction ds arbitrary: names)
  case Nil
  then show ?case by simp
next
  case (Cons d ds)
  then obtain n ns where names: "names = n # ns" and d: "detected_name d = Inr n"
    and ds: "map detected_name ds = map Inr ns"
    by (cases names) auto
  from Cons.IH [OF ds] d show ?case
    by (simp add: names)
qed

lemma print_languages_first:
  "detected_name d = Inr n \<Longrightarrow> fst (print_languages (d # ds)) = Language n # fst (print_languages ds)"
  by simp

lemma sublist_middle: "sublist ys (xs @ ys @ zs)"
  unfolding sublist_def by blast

lemma sublist_end: "sublist ys (xs @ ys)"
  using sublist_middle [of ys xs "[]"] by simp

lemma str_int_500: "str_int 500 = ''500''"
  by (simp add: str_int_def digits.simps char_eval)

text \<open>
  C4, as stated, fails: the body is decoded before the status is looked at. A response with
  status 500 whose body is the single byte 0xff is not valid UTF-8; \<open>decode\<close> raises
  \<open>UnicodeDecodeError\<close>, and the \<open>APIError\<close> that leaves \<open>GetLanguage\<close> carries that error's
  text, in which the status code 500 does not occur.
\<close>

theorem undecodable_body_counterexample:
  "GetLanguage
     (\<lambda>r. Response 500
        (Inl (UnicodeDecodeError
           ([CHR 0x27] @ ''utf-8'' @ [CHR 0x27] @ '' codec can'' @ [CHR 0x27]
            @ ''t decode byte 0xff in position 0: invalid start byte''))))
     (\<lambda>s. Inl (JSONDecodeError ''none'')) ''https://e'' ''k'' ''Hello''
   = ([Echo (jsonBody ''Hello'')],
      Inl (APIError
        (''Unexpected error during API call: '' @ [CHR 0x27] @ ''utf-8'' @ [CHR 0x27]
         @ '' codec can'' @ [CHR 0x27] @ ''t decode byte 0xff in position 0: invalid start byte'')))
   \<and> \<not> sublist (str_int 500)
        (''Unexpected error during API call: '' @ [CHR 0x27] @ ''utf-8'' @ [CHR 0x27]
         @ '' codec can'' @ [CHR 0x27] @ ''t decode byte 0xff in position 0: invalid start byte'')"
proof -
  let ?m = "''Unexpected error during API call: '' @ [CHR 0x27] @ ''utf-8'' @ [CHR 0x27]
         @ '' codec can'' @ [CHR 0x27] @ ''t decode byte 0xff in position 0: invalid start byte''"
  have "CHR ''5'' \<notin> set ?m"
    by simp
  moreover have "CHR ''5'' \<in> set ?m" if "sublist ''500'' ?m"
    using set_mono_sublist [OF that] by auto
  ultimately have "\<not> sublist (str_int 500) ?m"
    unfolding str_int_500 by blast
  then show ?thesis
    by (simp add: GetLanguage_def try_block_def)
qed

text \<open>
  C4, amended: for every HTTP response with a status other than 200, \<open>GetLanguage\<close> fails
  with \<open>APIError\<close>; when the body of the response decodes as UTF-8, the message of that
  \<open>APIError\<close> is Unexpected error during API call: API returned status, the status code,
  a colon and the decoded body, so it carries the status code and the body.
\<close>

theorem not_200_raises_APIError:
  assumes "send (request ep k tx) = Response status d" and "status \<noteq> 200"
  shows "(\<exists>m. snd (GetLanguage send json_loads ep k tx) = Inl (APIError m))
    \<and> (d = Inr data \<longrightarrow>
         (\<exists>m. GetLanguage send json_loads ep k tx = ([Echo (jsonBody tx)], Inl (APIError m))
            \<and> m = ''Unexpected error during API call: API returned status ''
                   @ str_int status @ '': '' @ data
            \<and> sublist (str_int status) m \<and> sublist data m))"
proof -
  have a: "\<exists>m. snd (GetLanguage send json_loads ep k tx) = Inl (APIError m)"
  proof (cases d)
    case (Inl e)
    with assms(1) have "snd (GetLanguage send json_loads ep k tx) = Inl (wrap e)"
      by (simp add: GetLanguage_undecodable)
    then show ?thesis
      using wrap_APIError [of e] by metis
  next
    case (Inr data')
    with assms show ?thesis
      by (simp add: GetLanguage_not_200)
  qed
  have b: "\<exists>m. GetLanguage send json_loads ep k tx = ([Echo (jsonBody tx)], Inl (APIError m))
            \<and> m = ''Unexpected error during API call: API returned status ''
                   @ str_int status @ '': '' @ data
            \<and> sublist (str_int status) m \<and> sublist data m"
    if "d = Inr data"
  proof -
    let ?p = "''Unexpected error during API call: API returned status ''"
    have 1: "sublist (str_int status) (?p @ str_int status @ '': '' @ data)"
      by (rule sublist_middle)
    have 2: "sublist data ((?p @ str_int status @ '': '') @ data)"
      by (rule sublist_end)
    from 1 2 GetLanguage_not_200 [of send ep k tx status data json_loads] assms that
    show ?thesis by simp
  qed
  from a b show ?thesis by blast
qed

theorem not_200_raises_APIError_witness:
  "(\<exists>m. snd (GetLanguage (\<lambda>r. Response 400 (Inr ''Error message''))
               (\<lambda>s. Inl (JSONDecodeError ''none'')) ''https://e'' ''k'' ''Hello'')
         = Inl (APIError m))
   \<and> GetLanguage (\<lambda>r. Response 400 (Inr ''Error message''))
        (\<lambda>s. Inl (JSONDecodeError ''none'')) ''https://e'' ''k'' ''Hello''
      = ([Echo (jsonBody ''Hello'')],
         Inl (APIError (''Unexpected error during API call: API returned status ''
                        @ str_int 400 @ '': Error message'')))"
proof -
  let ?send = "\<lambda>r::http_request. Response 400 (Inr ''Error message'')"
  have s: "?send (request ''https://e'' ''k'' ''Hello'') = Response 400 (Inr ''Error message'')"
    by simp
  have n: "(400::int) \<noteq> 200"
    by simp
  note t = not_200_raises_APIError [where send = ?send and ep = "''https://e''" and k = "''k''"
      and tx = "''Hello''" and status = 400 and d = "Inr ''Error message''"
      and data = "''Error message''" and json_loads = "\<lambda>s. Inl (JSONDecodeError ''none'')",
      OF s n]
  have 1: "\<exists>m. snd (GetLanguage ?send (\<lambda>s. Inl (JSONDecodeError ''none'')) ''https://e'' ''k'' ''Hello'')
         = Inl (APIError m)"
    using t [THEN conjunct1] .
  have 2: "GetLanguage ?send (\<lambda>s. Inl (JSONDecodeError ''none'')) ''https://e'' ''k'' ''Hello''
      = ([Echo (jsonBody ''Hello'')],
         Inl (APIError (''Unexpected error during API call: API returned status ''
                        @ str_int 400 @ '': Error message'')))"
    using t [THEN conjunct2, THEN mp, OF refl] by auto
  from 1 2 show ?thesis
    by (intro conjI)
qed

text \<open>
  C5, as stated, fails for rest-client.py: \<open>GetLanguage\<close> has no \<open>return\<close>. On a 200
  response whose only document has the detected language name English it prints the
  language line and returns \<open>None\<close>, not the string.
\<close>

theorem GetLanguage_returns_None_counterexample:
  "detected_name (JObject [(''detectedLanguage'', JObject [(''name'', JString ''English'')])])
     = Inr (JString ''English'')
   \<and> GetLanguage (\<lambda>r. Response 200 (Inr ''body''))
        (\<lambda>s. Inr (JObject [(''documents'',
           JArray [JObject [(''detectedLanguage'', JObject [(''name'', JString ''English'')])]])]))
        ''https://e'' ''k'' ''Hello''
      = ([Echo (jsonBody ''Hello''),
          Echo (JObject [(''documents'',
            JArray [JObject [(''detectedLanguage'', JObject [(''name'', JString ''English'')])]])]),
          Language (JString ''English'')],
         Inr None)
   \<and> snd (GetLanguage (\<lambda>r. Response 200 (Inr ''body''))
        (\<lambda>s. Inr (JObject [(''documents'',
           JArray [JObject [(''detectedLanguage'', JObject [(''name'', JString ''English'')])]])]))
        ''https://e'' ''k'' ''Hello'')
      \<noteq> Inr (Some ''English'')"
  by (simp add: GetLanguage_def try_block_def detected_name_def)

lemma print_languages_ok:
  "(\<forall>x\<in>set ds. \<exists>n. detected_name x = Inr n) \<Longrightarrow> snd (print_languages ds) = Inr ()"
  by (induction ds) auto

lemma print_languages_fails:
  "\<exists>x\<in>set ds. \<exists>e. detected_name x = Inl e \<Longrightarrow> \<exists>e. snd (print_languages ds) = Inl e"
proof (induction ds)
  case Nil
  then show ?case by simp
next
  case (Cons d ds)
  show ?case
  proof (cases "detected_name d")
    case (Inl e)
    then show ?thesis by simp
  next
    case (Inr n)
    with Cons.prems have "\<exists>x\<in>set ds. \<exists>e. detected_name x = Inl e"
      by auto
    with Cons.IH Inr show ?thesis by simp
  qed
qed

text \<open>
  C5, amended: for every 200 response whose JSON body has a \<open>documents\<close> list whose first
  entry has the detected language name English, \<open>GetLanguage\<close> of rest-client.py echoes
  the request and the response, prints the language line for English next, and never
  returns a string: it returns \<open>None\<close> when every later entry of the list has a detected
  language name too (so when the English entry is the only one, and then nothing else is
  printed), and it raises \<open>APIError\<close>, after the English line, when some later entry has
  none. In sdk-client.py, when the first result has the primary language name English,
  \<open>detect_language\<close> returns the string English to its caller. The theorem holds for any
  name in place of English.
\<close>

theorem first_language:
  "(send (request ep k tx) = Response 200 (Inr data) \<and> json_loads data = Inr results
      \<and> subscript results ''documents'' = Inr (JArray (d # ds))
      \<and> detected_name d = Inr (JString name) \<longrightarrow>
     prefix [Echo (jsonBody tx), Echo results, Language (JString name)]
       (fst (GetLanguage send json_loads ep k tx))
     \<and> (\<forall>s. snd (GetLanguage send json_loads ep k tx) \<noteq> Inr (Some s))
     \<and> ((\<forall>x\<in>set ds. \<exists>n. detected_name x = Inr n) \<longrightarrow>
          snd (GetLanguage send json_loads ep k tx) = Inr None)
     \<and> ((\<exists>x\<in>set ds. \<exists>e. detected_name x = Inl e) \<longrightarrow>
          (\<exists>m. snd (GetLanguage send json_loads ep k tx) = Inl (APIError m)))
     \<and> (ds = [] \<longrightarrow>
          GetLanguage send json_loads ep k tx
            = ([Echo (jsonBody tx), Echo results, Language (JString name)], Inr None)))
   \<and> (client [tx] = Inr (DetectLanguageResult name # rs) \<longrightarrow>
        detect_language client tx = Inr name)"
proof -
  have never: "snd (GetLanguage send json_loads ep k tx) \<noteq> Inr (Some s)" for s
    by (simp add: GetLanguage_def split: prod.splits sum.splits)
  have a: "prefix [Echo (jsonBody tx), Echo results, Language (JString name)]
             (fst (GetLanguage send json_loads ep k tx))
           \<and> ((\<forall>x\<in>set ds. \<exists>n. detected_name x = Inr n) \<longrightarrow>
                snd (GetLanguage send json_loads ep k tx) = Inr None)
           \<and> ((\<exists>x\<in>set ds. \<exists>e. detected_name x = Inl e) \<longrightarrow>
                (\<exists>m. snd (GetLanguage send json_loads ep k tx) = Inl (APIError m)))
           \<and> (ds = [] \<longrightarrow>
                GetLanguage send json_loads ep k tx
                  = ([Echo (jsonBody tx), Echo results, Language (JString name)], Inr None))"
    if h: "send (request ep k tx) = Response 200 (Inr data)" "json_loads data = Inr results"
      "subscript results ''documents'' = Inr (JArray (d # ds))"
      "detected_name d = Inr (JString name)"
  proof -
    have it: "iterate (JArray (d # ds)) = Inr (d # ds)"
      by simp
    note g = GetLanguage_200 [where send = send and json_loads = json_loads, OF h(1) h(2) h(3) it]
    have "fst (GetLanguage send json_loads ep k tx)
          = [Echo (jsonBody tx), Echo results, Language (JString name)] @ fst (print_languages ds)"
      unfolding g using h(4) by simp
    then have 1: "prefix [Echo (jsonBody tx), Echo results, Language (JString name)]
                    (fst (GetLanguage send json_loads ep k tx))"
      by (metis prefixI)
    have s: "snd (GetLanguage send json_loads ep k tx)
             = (case snd (print_languages ds) of Inl e \<Rightarrow> Inl (wrap e) | Inr u \<Rightarrow> Inr None)"
      unfolding g using h(4) by simp
    have 2: "snd (GetLanguage send json_loads ep k tx) = Inr None"
      if "\<forall>x\<in>set ds. \<exists>n. detected_name x = Inr n"
      unfolding s using print_languages_ok [OF that] by simp
    have 3: "\<exists>m. snd (GetLanguage send json_loads ep k tx) = Inl (APIError m)"
      if "\<exists>x\<in>set ds. \<exists>e. detected_name x = Inl e"
    proof -
      from print_languages_fails [OF that] obtain e where "snd (print_languages ds) = Inl e"
        by blast
      then have "snd (GetLanguage send json_loads ep k tx) = Inl (wrap e)"
        unfolding s by simp
      then show ?thesis
        using wrap_APIError [of e] by metis
    qed
    have 4: "GetLanguage send json_loads ep k tx
               = ([Echo (jsonBody tx), Echo results, Language (JString name)], Inr None)"
      if "ds = []"
      unfolding g using h(4) that by simp
    from 1 2 3 4 show ?thesis by blast
  qed
  have b: "detect_language client tx = Inr name"
    if "client [tx] = Inr (DetectLanguageResult name # rs)"
    using that by (simp add: detect_language_def item0_def)
  have A: "send (request ep k tx) = Response 200 (Inr data) \<and> json_loads data = Inr results
      \<and> subscript results ''documents'' = Inr (JArray (d # ds))
      \<and> detected_name d = Inr (JString name) \<longrightarrow>
     prefix [Echo (jsonBody tx), Echo results, Language (JString name)]
       (fst (GetLanguage send json_loads ep k tx))
     \<and> (\<forall>s. snd (GetLanguage send json_loads ep k tx) \<noteq> Inr (Some s))
     \<and> ((\<forall>x\<in>set ds. \<exists>n. detected_name x = Inr n) \<longrightarrow>
          snd (GetLanguage send json_loads ep k tx) = Inr None)
     \<and> ((\<exists>x\<in>set ds. \<exists>e. detected_name x = Inl e) \<longrightarrow>
          (\<exists>m. snd (GetLanguage send json_loads ep k tx) = Inl (APIError m)))
     \<and> (ds = [] \<longrightarrow>
          GetLanguage send json_loads ep k tx
            = ([Echo (jsonBody tx), Echo results, Language (JString name)], Inr None))"
  proof (intro impI, elim conjE)
    assume h: "send (request ep k tx) = Response 200 (Inr data)" "json_loads data = Inr results"
      "subscript results ''documents'' = Inr (JArray (d # ds))"
      "detected_name d = Inr (JString name)"
    note x = a [OF h]
    show "prefix [Echo (jsonBody tx), Echo results, Language (JString name)]
       (fst (GetLanguage send json_loads ep k tx))
     \<and> (\<forall>s. snd (GetLanguage send json_loads ep k tx) \<noteq> Inr (Some s))
     \<and> ((\<forall>x\<in>set ds. \<exists>n. detected_name x = Inr n) \<longrightarrow>
          snd (GetLanguage send json_loads ep k tx) = Inr None)
     \<and> ((\<exists>x\<in>set ds. \<exists>e. detected_name x = Inl e) \<longrightarrow>
          (\<exists>m. snd (GetLanguage send json_loads ep k tx) = Inl (APIError m)))
     \<and> (ds = [] \<longrightarrow>
          GetLanguage send json_loads ep k tx
            = ([Echo (jsonBody tx), Echo results, Language (JString name)], Inr None))"
      by (rule conjI [OF x [THEN conjunct1]], rule conjI, rule allI, rule never,
          rule x [THEN conjunct2])
  qed
  have B: "client [tx] = Inr (DetectLanguageResult name # rs) \<longrightarrow>
        detect_language client tx = Inr name"
    using b by (intro impI)
  from A B show ?thesis
    by (rule conjI)
qed

theorem first_language_witness:
  "prefix [Echo (jsonBody ''Hello''),
           Echo (JObject [(''documents'',
             JArray [JObject [(''detectedLanguage'', JObject [(''name'', JString ''English'')])]])]),
           Language (JString ''English'')]
     (fst (GetLanguage (\<lambda>r. Response 200 (Inr ''body''))
        (\<lambda>s. Inr (JObject [(''documents'',
           JArray [JObject [(''detectedLanguage'', JObject [(''name'', JString ''English'')])]])]))
        ''https://e'' ''k'' ''Hello''))
   \<and> GetLanguage (\<lambda>r. Response 200 (Inr ''body''))
        (\<lambda>s. Inr (JObject [(''documents'',
           JArray [JObject [(''detectedLanguage'', JObject [(''name'', JString ''English'')])]])]))
        ''https://e'' ''k'' ''Hello''
      = ([Echo (jsonBody ''Hello''),
          Echo (JObject [(''documents'',
            JArray [JObject [(''detectedLanguage'', JObject [(''name'', JString ''English'')])]])]),
          Language (JString ''English'')],
         Inr None)
   \<and> (\<exists>m. snd (GetLanguage (\<lambda>r. Response 200 (Inr ''body''))
        (\<lambda>s. Inr (JObject [(''documents'',
           JArray [JObject [(''detectedLanguage'', JObject [(''name'', JString ''English'')])],
                   JObject [(''id'', JInt 2)]])]))
        ''https://e'' ''k'' ''Hello'') = Inl (APIError m))
   \<and> detect_language (\<lambda>d. Inr [DetectLanguageResult ''English'']) ''Hello'' = Inr ''English''"
proof -
  let ?send = "\<lambda>r::http_request. Response 200 (Inr ''body'')"
  let ?doc = "JObject [(''detectedLanguage'', JObject [(''name'', JString ''English'')])]"
  let ?bad = "JObject [(''id'', JInt 2)]"
  let ?results = "JObject [(''documents'', JArray [?doc])]"
  let ?mixed = "JObject [(''documents'', JArray [?doc, ?bad])]"
  let ?loads = "\<lambda>s::string. (Inr ?results :: exn + json)"
  let ?parse = "\<lambda>s::string. (Inr ?mixed :: exn + json)"
  let ?client = "\<lambda>d::string list. (Inr [DetectLanguageResult ''English''] :: exn + sdk_result list)"
  have p: "?send (request ''https://e'' ''k'' ''Hello'') = Response 200 (Inr ''body'')
           \<and> ?loads ''body'' = Inr ?results
           \<and> subscript ?results ''documents'' = Inr (JArray (?doc # []))
           \<and> detected_name ?doc = Inr (JString ''English'')"
    by (simp add: detected_name_def)
  have p': "?send (request ''https://e'' ''k'' ''Hello'') = Response 200 (Inr ''body'')
           \<and> ?parse ''body'' = Inr ?mixed
           \<and> subscript ?mixed ''documents'' = Inr (JArray (?doc # [?bad]))
           \<and> detected_name ?doc = Inr (JString ''English'')"
    by (simp add: detected_name_def)
  have bad: "\<exists>x\<in>set [?bad]. \<exists>e. detected_name x = Inl e"
    by (simp add: detected_name_def)
  have q: "?client [''Hello''] = Inr (DetectLanguageResult ''English'' # [])"
    by simp
  note t = first_language [where send = ?send and ep = "''https://e''" and k = "''k''"
      and tx = "''Hello''" and data = "''body''" and json_loads = ?loads and results = ?results
      and d = ?doc and ds = "[]" and name = "''English''" and client = ?client and rs = "[]"]
  note u = first_language [where send = ?send and ep = "''https://e''" and k = "''k''"
      and tx = "''Hello''" and data = "''body''" and json_loads = ?parse and results = ?mixed
      and d = ?doc and ds = "[?bad]" and name = "''English''"]
  have 1: "prefix [Echo (jsonBody ''Hello''), Echo ?results, Language (JString ''English'')]
             (fst (GetLanguage ?send ?loads ''https://e'' ''k'' ''Hello''))"
    using t [THEN conjunct1, THEN mp, OF p, THEN conjunct1] .
  have 2: "detect_language ?client ''Hello'' = Inr ''English''"
    using t [THEN conjunct2, THEN mp, OF q] .
  have 3: "GetLanguage ?send ?loads ''https://e'' ''k'' ''Hello''
           = ([Echo (jsonBody ''Hello''), Echo ?results, Language (JString ''English'')], Inr None)"
    using t [THEN conjunct1, THEN mp, OF p, THEN conjunct2, THEN conjunct2, THEN conjunct2,
        THEN conjunct2, THEN mp, OF refl] .
  have 4: "\<exists>m. snd (GetLanguage ?send ?parse ''https://e'' ''k'' ''Hello'') = Inl (APIError m)"
    using u [THEN conjunct1, THEN mp, OF p', THEN conjunct2, THEN conjunct2, THEN conjunct2,
        THEN conjunct1, THEN mp, OF bad] .
  from 1 3 4 2 show ?thesis
    by (intro conjI)
qed

text \<open>
  C8, as stated, fails: the success path does not index the \<open>documents\<close> list, it loops
  over it. On a 200 response whose \<open>documents\<close> list is empty the loop body never runs:
  \<open>GetLanguage\<close> echoes the request and the response, prints no language line and returns
  normally, with no index error and no \<open>APIError\<close>.
\<close>

theorem empty_documents_counterexample:
  "GetLanguage (\<lambda>r. Response 200 (Inr ''body'')) (\<lambda>s. Inr (JObject [(''documents'', JArray [])]))
     ''https://e'' ''k'' ''Hello''
   = ([Echo (jsonBody ''Hello''), Echo (JObject [(''documents'', JArray [])])], Inr None)
   \<and> snd (GetLanguage (\<lambda>r. Response 200 (Inr ''body''))
        (\<lambda>s. Inr (JObject [(''documents'', JArray [])])) ''https://e'' ''k'' ''Hello'')
      \<noteq> Inl (APIError ''Unexpected error during API call: list index out of range'')"
  by (simp add: GetLanguage_def try_block_def)

text \<open>
  C8, amended: in rest-client.py, on a 200 response whose \<open>documents\<close> list holds
  documents that each have a detected language name, the success path prints the name of
  every document of the list, in the order of the list (so the first document's name comes
  first), and returns; for a 200 response whose \<open>documents\<close> list is empty it prints no
  language line and returns normally, without any error.
\<close>

theorem documents_all_printed:
  assumes "send (request ep k tx) = Response 200 (Inr data)"
    and "json_loads data = Inr results"
    and "subscript results ''documents'' = Inr (JArray ds)"
    and "map detected_name ds = map Inr names"
  shows "GetLanguage send json_loads ep k tx
           = ([Echo (jsonBody tx), Echo results] @ map Language names, Inr None)
         \<and> (ds = [] \<longrightarrow>
              GetLanguage send json_loads ep k tx = ([Echo (jsonBody tx), Echo results], Inr None))"
proof -
  have it: "iterate (JArray ds) = Inr ds"
    by simp
  have g: "GetLanguage send json_loads ep k tx
           = ([Echo (jsonBody tx), Echo results] @ map Language names, Inr None)"
    unfolding GetLanguage_200 [where send = send and json_loads = json_loads, OF assms(1) assms(2) assms(3) it] print_languages_all [OF assms(4)]
    by simp
  moreover have "names = []" if "ds = []"
    using assms(4) that by simp
  ultimately show ?thesis by simp
qed

theorem documents_all_printed_witness:
  "GetLanguage (\<lambda>r. Response 200 (Inr ''body''))
     (\<lambda>s. Inr (JObject [(''documents'',
        JArray [JObject [(''detectedLanguage'', JObject [(''name'', JString ''English'')])],
                JObject [(''detectedLanguage'', JObject [(''name'', JString ''French'')])]])]))
     ''https://e'' ''k'' ''Hello''
   = ([Echo (jsonBody ''Hello''),
       Echo (JObject [(''documents'',
         JArray [JObject [(''detectedLanguage'', JObject [(''name'', JString ''English'')])],
                 JObject [(''detectedLanguage'', JObject [(''name'', JString ''French'')])]])]),
       Language (JString ''English''), Language (JString ''French'')],
      Inr None)
   \<and> GetLanguage (\<lambda>r. Response 200 (Inr ''body'')) (\<lambda>s. Inr (JObject [(''documents'', JArray [])]))
       ''https://e'' ''k'' ''Hello''
     = ([Echo (jsonBody ''Hello''), Echo (JObject [(''documents'', JArray [])])], Inr None)"
proof -
  let ?send = "\<lambda>r::http_request. Response 200 (Inr ''body'')"
  let ?d1 = "JObject [(''detectedLanguage'', JObject [(''name'', JString ''English'')])]"
  let ?d2 = "JObject [(''detectedLanguage'', JObject [(''name'', JString ''French'')])]"
  let ?results = "JObject [(''documents'', JArray [?d1, ?d2])]"
  let ?loads = "\<lambda>s::string. (Inr ?results :: exn + json)"
  have 1: "?send (request ''https://e'' ''k'' ''Hello'') = Response 200 (Inr ''body'')"
    by simp
  have 2: "?loads ''body'' = Inr ?results"
    by simp
  have 3: "subscript ?results ''documents'' = Inr (JArray [?d1, ?d2])"
    by simp
  have 4: "map detected_name [?d1, ?d2] = map Inr [JString ''English'', JString ''French'']"
    by (simp add: detected_name_def)
  let ?none = "JObject [(''documents'', JArray [])]"
  let ?noloads = "\<lambda>s::string. (Inr ?none :: exn + json)"
  have 5: "?noloads ''body'' = Inr ?none"
    by simp
  have 6: "subscript ?none ''documents'' = Inr (JArray [])"
    by simp
  have 7: "map detected_name [] = map Inr []"
    by simp
  have a: "GetLanguage ?send ?loads ''https://e'' ''k'' ''Hello''
           = ([Echo (jsonBody ''Hello''), Echo ?results, Language (JString ''English''),
               Language (JString ''French'')], Inr None)"
    using documents_all_printed [where send = ?send and json_loads = ?loads, OF 1 2 3 4,
        THEN conjunct1]
    by simp
  have b: "GetLanguage ?send ?noloads ''https://e'' ''k'' ''Hello''
           = ([Echo (jsonBody ''Hello''), Echo ?none], Inr None)"
    using documents_all_printed [where send = ?send and json_loads = ?noloads, OF 1 5 6 7,
        THEN conjunct2, THEN mp, OF refl] .
  from a b show ?thesis
    by (intro conjI)
qed

section \<open>The request\<close>













section \<open>Two whole runs\<close>

lemma valid_environment:
  "validate_configuration [''AI_SERVICE_ENDPOINT'' \<mapsto> ''https://test-endpoint.com'',
                           ''AI_SERVICE_KEY'' \<mapsto> ''test-key'']
     = Inr (''https://test-endpoint.com'', ''test-key'')"
  "from_env [''AI_SERVICE_ENDPOINT'' \<mapsto> ''https://test-endpoint.com'',
             ''AI_SERVICE_KEY'' \<mapsto> ''test-key'']
     = Inr \<lparr>endpoint = ''https://test-endpoint.com'', key = ''test-key''\<rparr>"
  by (simp_all add: validate_configuration_cases from_env_cases)

text \<open>
  With a valid configuration, the input lines Hello and quit, and an SDK client that
  answers English, \<open>main\<close> of sdk-client.py prints the language exactly once and returns
  normally after the second prompt.
\<close>

theorem sdk_run_hello_quit:
  "sdk_main (\<lambda>c d. Inr [DetectLanguageResult ''English''])
     [''AI_SERVICE_ENDPOINT'' \<mapsto> ''https://test-endpoint.com'', ''AI_SERVICE_KEY'' \<mapsto> ''test-key'']
     [''Hello'', ''quit'']
   = Some ([Prompt, Call_validate ''Hello'', Call_client ''Hello'', Line ''Language: English'',
            Prompt], Inr ())"
proof -
  let ?client = "\<lambda>d::string list. (Inr [DetectLanguageResult ''English''] :: exn + sdk_result list)"
  let ?t1 = "[Prompt, Call_validate ''Hello'', Call_client ''Hello'', Line ''Language: English'']"
  let ?s0 = "\<lparr>user_text = [], stdin = [''Hello'', ''quit''], trace = []\<rparr>"
  let ?s1 = "\<lparr>user_text = ''Hello'', stdin = [''quit''], trace = ?t1\<rparr>"
  let ?s2 = "\<lparr>user_text = ''quit'', stdin = [], trace = ?t1 @ [Prompt]\<rparr>"
  have it: "sdk_iteration ?client ''Hello''
            = [Call_validate ''Hello'', Call_client ''Hello'', Line ''Language: English'']"
    by (simp add: sdk_iteration_def lower_Hello validate_Hello detect_language_def item0_def)
  have 1: "sdk_step ?client ?s0 = Some ?s1"
    by (simp add: sdk_step_def lower_empty it)
  have 2: "sdk_step ?client ?s1 = Some ?s2"
    by (simp add: sdk_step_def lower_Hello sdk_iteration_def lower_quit)
  have 3: "sdk_step ?client ?s2 = None"
    by (simp add: sdk_step_def lower_quit)
  have "sdk_loop ?client ?s0 = Some (?t1 @ [Prompt])"
    using sdk_loop_next [OF 1] sdk_loop_next [OF 2] sdk_loop_exit [OF 3] by simp
  then show ?thesis
    by (simp add: sdk_main_def valid_environment)
qed

text \<open>
  With a valid configuration and the input lines made of one space and quit, \<open>main\<close>
  of rest-client.py prints the input error for the empty text, does not call the
  language client, and returns normally after the second prompt, whatever the network
  and the parser would answer.
\<close>

theorem rest_run_blank_quit:
  "rest_main send json_loads
     [''AI_SERVICE_ENDPOINT'' \<mapsto> ''https://test-endpoint.com'', ''AI_SERVICE_KEY'' \<mapsto> ''test-key'']
     ['' '', ''quit'']
   = Some ([Prompt, Call_validate '' '', Line ''Input error: Text cannot be empty'', Prompt],
           Inr ())"
proof -
  let ?ep = "''https://test-endpoint.com''"
  let ?t1 = "[Prompt, Call_validate '' '', Line ''Input error: Text cannot be empty'']"
  let ?s0 = "\<lparr>user_text = [], stdin = ['' '', ''quit''], trace = []\<rparr>"
  let ?s1 = "\<lparr>user_text = '' '', stdin = [''quit''], trace = ?t1\<rparr>"
  let ?s2 = "\<lparr>user_text = ''quit'', stdin = [], trace = ?t1 @ [Prompt]\<rparr>"
  have it: "rest_iteration send json_loads ?ep ''test-key'' '' ''
            = [Call_validate '' '', Line ''Input error: Text cannot be empty'']"
    by (simp add: rest_iteration_def lower_blank validate_text_blank)
  have 1: "rest_step send json_loads ?ep ''test-key'' ?s0 = Some ?s1"
    by (simp add: rest_step_def lower_empty it)
  have 2: "rest_step send json_loads ?ep ''test-key'' ?s1 = Some ?s2"
    by (simp add: rest_step_def lower_blank rest_iteration_def lower_quit)
  have 3: "rest_step send json_loads ?ep ''test-key'' ?s2 = None"
    by (simp add: rest_step_def lower_quit)
  have "rest_loop send json_loads ?ep ''test-key'' ?s0 = Some (?t1 @ [Prompt])"
    using rest_loop_next [OF 1] rest_loop_next [OF 2] rest_loop_exit [OF 3] by simp
  then show ?thesis
    by (simp add: rest_main_def valid_environment)
qed

end
